theory Spec2Isabelle
  imports Complex_Main "HOL-Library.List_Lexorder" "HOL-Library.Char_ord"
begin

section \<open>Flight booking backend: data model\<close>

text \<open>
  The development embeds the booking core of \<^verbatim>\<open>src/backend/flight_api.py\<close>:
  \<^verbatim>\<open>calculate_dynamic_price\<close>, \<^verbatim>\<open>calculate_refund\<close>, \<^verbatim>\<open>update_flight_inventory\<close>,
  \<^verbatim>\<open>cleanup_expired_bookings\<close>, \<^verbatim>\<open>checkout\<close> and \<^verbatim>\<open>cancel_booking\<close>.

  Modelling conventions.
  \<^item> Python \<^verbatim>\<open>float\<close> values (prices, factors, hours) are rationals (\<^typ>\<open>rat\<close>) and the
    price expressions are computed exactly. What the binary evaluation of such an
    expression followed by \<^verbatim>\<open>round(x, 2)\<close> returns is an input of the model, like the clock:
    see \<open>reading\<close> and \<open>rounds_to_cents\<close> below. The comparisons against the tier
    constants are exact.
  \<^item> A \<^verbatim>\<open>datetime\<close> is a count of microseconds (\<^typ>\<open>int\<close>); \<^verbatim>\<open>datetime.now()\<close> is not a
    function of the state, so every reading of the clock is a parameter.
  \<^item> An SQLite table is the list of its rows, in insertion order; \<^verbatim>\<open>SELECT ... WHERE id = ?\<close>
    is \<^const>\<open>find\<close>, \<^verbatim>\<open>UPDATE ... WHERE\<close> is \<^const>\<open>map\<close> over the rows, \<^verbatim>\<open>INSERT\<close> appends.
    Text columns compared by SQLite (\<^verbatim>\<open>booking_date < ?\<close>) are strings under the
    lexicographic byte order.
  \<^item> A raised exception is the left injection of a sum; \<^verbatim>\<open>random\<close>, \<^verbatim>\<open>uuid\<close> and
    \<^verbatim>\<open>secrets\<close> draws are parameters.
\<close>

type_synonym datetime = int

datatype error =
    NotFoundError           \<comment> \<open>\<^verbatim>\<open>HTTPException(404, ...)\<close>\<close>
  | ForbiddenError          \<comment> \<open>\<^verbatim>\<open>HTTPException(403, "Unauthorized")\<close>\<close>
  | InvalidStateError       \<comment> \<open>\<^verbatim>\<open>HTTPException(400, ...)\<close> for a flight or booking in the wrong state\<close>
  | CapacityError           \<comment> \<open>\<^verbatim>\<open>HTTPException(400, ...)\<close> for too few seats\<close>
  | ConflictError           \<comment> \<open>\<^verbatim>\<open>HTTPException(409, "Seat ... already booked")\<close>\<close>
  | PaymentDeclinedError    \<comment> \<open>\<^verbatim>\<open>HTTPException(402, "Payment failed. Please try again.")\<close>\<close>
  | FatalError              \<comment> \<open>\<^verbatim>\<open>HTTPException(500, ...)\<close>, raised by the handlers' \<^verbatim>\<open>except Exception\<close>\<close>
  | ZeroDivisionError       \<comment> \<open>Python's own exception for \<^verbatim>\<open>x / 0\<close>\<close>
  | IntegrityError          \<comment> \<open>\<^verbatim>\<open>sqlite3.IntegrityError\<close>: a violated constraint\<close>
  | OverflowError           \<comment> \<open>a Python \<^verbatim>\<open>int\<close> too large to bind as an SQLite \<^verbatim>\<open>INTEGER\<close>\<close>

fun http_status :: "error \<Rightarrow> nat option" where
  "http_status NotFoundError = Some 404"
| "http_status ForbiddenError = Some 403"
| "http_status InvalidStateError = Some 400"
| "http_status CapacityError = Some 400"
| "http_status ConflictError = Some 409"
| "http_status PaymentDeclinedError = Some 402"
| "http_status FatalError = Some 500"
| "http_status ZeroDivisionError = None"
| "http_status IntegrityError = None"
| "http_status OverflowError = None"

datatype flight_status = SCHEDULED | BOARDING | DEPARTED | ARRIVED | FLIGHT_CANCELLED

datatype booking_status = PENDING | CONFIRMED | CANCELLED | REFUNDED

datatype payment_status = PAY_SUCCESS | PAY_FAILED | PAY_PENDING | PAY_REFUNDED

datatype payment_method = UPI | CARD | WALLET | NETBANKING

datatype seat_type = WINDOW | AISLE | MIDDLE

datatype passenger_type = ADULT | CHILD | INFANT

datatype role = ADMIN | CUSTOMER

text \<open>
  The rows of the tables created by \<^verbatim>\<open>init_schema\<close>. Columns that no modelled statement
  reads or constrains (names of airlines and airports, arrival time, contact data, dates of
  birth, passport numbers, row timestamps other than \<^verbatim>\<open>booking_date\<close>) are left out.
\<close>

record user =
  u_id :: int
  u_role :: role

record flight =
  f_id :: int
  f_total_seats :: int
  f_seats_remaining :: int
  f_base_price :: rat
  f_demand_factor :: rat
  f_departure_time :: datetime
  f_status :: flight_status

record booking =
  b_id :: int
  b_user_id :: int
  b_flight_id :: int
  b_pnr :: string
  b_price_paid :: rat
  b_booking_date :: string
  b_status :: booking_status
  b_payment_reference :: "string option"
  b_cancellation_date :: "string option"
  b_refund_amount :: "rat option"

record passenger =
  p_booking_id :: int
  p_flight_id :: int
  p_seat_number :: string
  p_seat_type :: seat_type
  p_full_name :: string
  p_passenger_type :: passenger_type

record payment =
  pay_booking_id :: int
  pay_reference :: string
  pay_method :: payment_method
  pay_amount_paid :: rat
  pay_status :: payment_status

record price_history_entry =
  h_flight_id :: int
  h_recorded_price :: rat
  h_demand_factor :: rat
  h_seats_remaining :: int

record cancelled_booking =
  c_pnr :: string
  c_user_id :: int
  c_flight_id :: int
  c_price_paid :: rat
  c_refund_amount :: rat
  c_reason :: string

record db =
  users :: "user list"
  flights :: "flight list"
  bookings :: "booking list"
  passengers :: "passenger list"
  flight_price_history :: "price_history_entry list"
  payments :: "payment list"
  cancelled_bookings :: "cancelled_booking list"

section \<open>Numbers and time\<close>

text \<open>Python's true division of two integers: \<^verbatim>\<open>a / b\<close> raises when \<^verbatim>\<open>b\<close> is zero.\<close>

definition py_truediv :: "int \<Rightarrow> int \<Rightarrow> error + rat" where
  "py_truediv a b = (if b = 0 then Inl ZeroDivisionError else Inr (of_int a / of_int b))"

text \<open>
  Rounding to two decimals. \<^verbatim>\<open>calculate_dynamic_price\<close> and \<^verbatim>\<open>calculate_refund\<close> evaluate
  their price expression in binary floating point and pass the result to \<^verbatim>\<open>round(x, 2)\<close>.
  Python returns the two-decimal number next to the value of the float expression. When
  the exact value of the expression lies half-way between two such numbers (52.605, the
  price for a base of 50.1 with a surcharge of 5 percent), the float is a little above or a
  little below the tie, and either neighbour comes back: 52.61 there, but 1.27 for the
  exact 1.275. The model computes the expression exactly and takes the result of the
  rounding as an input: a function from the exact value to the value returned. Every such
  function gives a whole number of cents at most half a cent from the exact value. The
  binary error of the float expression, about one part in ten to the sixteenth of its
  size, decides a tie and is not modelled otherwise.
\<close>

definition is_cents :: "rat \<Rightarrow> bool" where
  "is_cents y \<longleftrightarrow> of_int \<lfloor>y * 100\<rfloor> = y * 100"

definition rounds_to_cents :: "(rat \<Rightarrow> rat) \<Rightarrow> bool" where
  "rounds_to_cents round2 \<longleftrightarrow> (\<forall>x. is_cents (round2 x) \<and> \<bar>round2 x - x\<bar> \<le> 1 / 200)"

text \<open>
  The rounding functions, one for each rule \<open>up\<close> that decides at a tie, from the number
  of whole cents below it, whether the upper neighbour is taken: \<open>odd\<close> gives ties to
  even, \<open>\<lambda>_. True\<close> ties upwards, \<open>\<lambda>_. False\<close> ties downwards.
\<close>

definition round_cents :: "(int \<Rightarrow> bool) \<Rightarrow> rat \<Rightarrow> rat" where
  "round_cents up x =
     (let f = \<lfloor>x * 100\<rfloor>; r = x * 100 - of_int f
      in of_int (if r < 1 / 2 then f
                 else if 1 / 2 < r then f + 1
                 else if up f then f + 1 else f) / 100)"

text \<open>
  What one call of \<^verbatim>\<open>calculate_dynamic_price\<close> or \<^verbatim>\<open>calculate_refund\<close> takes from outside
  its arguments: the clock (\<^verbatim>\<open>datetime.now()\<close>, lines 437 and 454) and the outcome of the
  rounding of its price expression (lines 449-450 and 475).
\<close>

record reading =
  rd_now :: datetime
  rd_round2 :: "rat \<Rightarrow> rat"

text \<open>The reading used in the examples: the given time, ties to even.\<close>

definition reading_at :: "datetime \<Rightarrow> reading" where
  "reading_at t = \<lparr>rd_now = t, rd_round2 = round_cents odd\<rparr>"

text \<open>\<^verbatim>\<open>(departure_time - now).total_seconds() / 3600\<close>.\<close>

definition hours_until :: "datetime \<Rightarrow> datetime \<Rightarrow> rat" where
  "hours_until departure_time now = of_int (departure_time - now) / 1000000 / 3600"

text \<open>A whole number of hours as a \<^verbatim>\<open>datetime\<close> offset, to write the examples.\<close>

definition hours :: "int \<Rightarrow> datetime" where
  "hours n = n * 3600 * 1000000"

section \<open>Pricing and refunds\<close>

text \<open>
  \<^verbatim>\<open>calculate_dynamic_price\<close> (lines 417-450); \<open>rd\<close> holds the clock reading of line 437
  and the rounding of lines 449-450.
\<close>

definition calculate_dynamic_price ::
  "rat \<Rightarrow> int \<Rightarrow> int \<Rightarrow> rat \<Rightarrow> datetime \<Rightarrow> reading \<Rightarrow> error + rat" where
  "calculate_dynamic_price base_price seats_remaining total_seats demand_factor
       departure_time rd =
     (let total_seats = (if total_seats \<le> 0 then 1 else total_seats)
      in case py_truediv seats_remaining total_seats of
           Inl e \<Rightarrow> Inl e
         | Inr remaining_percentage \<Rightarrow>
             (let seat_factor =
                    (if remaining_percentage \<le> 5 / 100 then 60 / 100
                     else if remaining_percentage \<le> 10 / 100 then 40 / 100
                     else if remaining_percentage \<le> 20 / 100 then 20 / 100
                     else if remaining_percentage \<le> 50 / 100 then 10 / 100
                     else 0);
                  hours_until_departure = hours_until departure_time (rd_now rd);
                  time_factor =
                    (if hours_until_departure < 0 then 0
                     else if hours_until_departure < 6 then 30 / 100
                     else if hours_until_departure < 24 then 20 / 100
                     else if hours_until_departure < 72 then 10 / 100
                     else 5 / 100);
                  final_price = base_price * (1 + seat_factor + time_factor) * demand_factor
              in Inr (rd_round2 rd final_price)))"

text \<open>
  \<^verbatim>\<open>calculate_refund\<close> (lines 452-476); \<open>rd\<close> holds the clock reading of line 454 and the
  rounding of line 475.
\<close>

definition calculate_refund :: "rat \<Rightarrow> datetime \<Rightarrow> reading \<Rightarrow> rat \<times> string" where
  "calculate_refund price_paid departure_time rd =
     (let hours_until = hours_until departure_time (rd_now rd);
          (refund_pct, policy) =
            (if 72 < hours_until then (90 / 100, ''More than 72 hours before departure'')
             else if 48 < hours_until then (80 / 100, ''48-72 hours before departure'')
             else if 24 < hours_until then (60 / 100, ''24-48 hours before departure'')
             else if 6 < hours_until then (40 / 100, ''6-24 hours before departure'')
             else if 0 < hours_until then (20 / 100, ''Less than 6 hours before departure'')
             else (0, ''Flight already departed - no refund''));
          refund_amount = rd_round2 rd (price_paid * refund_pct)
      in (refund_amount, policy))"

text \<open>
  The pricing rule in the words of the specification (section 4.1): the seat-scarcity
  surcharge by remaining share, the time surcharge by hours to departure.
\<close>

definition spec_seat_surcharge :: "rat \<Rightarrow> rat" where
  "spec_seat_surcharge share =
     (if share \<le> 5 / 100 then 60 / 100
      else if share \<le> 10 / 100 then 40 / 100
      else if share \<le> 20 / 100 then 20 / 100
      else if share \<le> 50 / 100 then 10 / 100
      else 0)"

definition spec_time_surcharge :: "rat \<Rightarrow> rat" where
  "spec_time_surcharge h =
     (if h < 0 then 0
      else if h < 6 then 30 / 100
      else if h < 24 then 20 / 100
      else if h < 72 then 10 / 100
      else 5 / 100)"

text \<open>The refund tiers in the words of the specification (section 4.5).\<close>

definition spec_refund_pct :: "rat \<Rightarrow> rat" where
  "spec_refund_pct h =
     (if 72 < h then 90 / 100
      else if 48 < h then 80 / 100
      else if 24 < h then 60 / 100
      else if 6 < h then 40 / 100
      else if 0 < h then 20 / 100
      else 0)"

definition spec_refund_policy :: "rat \<Rightarrow> string" where
  "spec_refund_policy h =
     (if 72 < h then ''More than 72 hours before departure''
      else if 48 < h then ''48-72 hours before departure''
      else if 24 < h then ''24-48 hours before departure''
      else if 6 < h then ''6-24 hours before departure''
      else if 0 < h then ''Less than 6 hours before departure''
      else ''Flight already departed - no refund'')"



section \<open>Inventory\<close>

text \<open>
  \<^verbatim>\<open>update_flight_inventory\<close> (lines 478-527). Both raises come before the first write, so
  a failing call leaves the connection's state as it was. \<open>rd\<close> is the reading of the
  call of \<^verbatim>\<open>calculate_dynamic_price\<close> that prices the history entry. The
  \<^verbatim>\<open>CHECK\<close> constraints of the flight table are not evaluated by the model.
\<close>

definition update_flight_inventory :: "db \<Rightarrow> int \<Rightarrow> int \<Rightarrow> reading \<Rightarrow> error + db" where
  "update_flight_inventory conn flight_id seats_change rd =
     (case find (\<lambda>f. f_id f = flight_id) (flights conn) of
        None \<Rightarrow> Inl NotFoundError
      | Some flight \<Rightarrow>
          (let new_remaining = f_seats_remaining flight + seats_change
           in if new_remaining < 0 then Inl CapacityError
              else
                (let new_remaining =
                       (if f_total_seats flight < new_remaining then f_total_seats flight
                        else new_remaining)
                 in case py_truediv new_remaining (f_total_seats flight) of
                      Inl e \<Rightarrow> Inl e
                    | Inr remaining_pct \<Rightarrow>
                        (let demand_factor =
                               (if remaining_pct \<le> 5 / 100 then 16 / 10
                                else if remaining_pct \<le> 10 / 100 then 14 / 10
                                else if remaining_pct \<le> 20 / 100 then 12 / 10
                                else 1);
                             conn1 = conn\<lparr>flights :=
                               map (\<lambda>f. if f_id f = flight_id
                                         then f\<lparr>f_seats_remaining := new_remaining,
                                                f_demand_factor := demand_factor\<rparr>
                                         else f) (flights conn)\<rparr>
                         in case calculate_dynamic_price (f_base_price flight) new_remaining
                                   (f_total_seats flight) demand_factor
                                   (f_departure_time flight) rd of
                              Inl e \<Rightarrow> Inl e
                            | Inr new_price \<Rightarrow>
                                Inr (conn1\<lparr>flight_price_history :=
                                       flight_price_history conn1 @
                                         [\<lparr>h_flight_id = flight_id,
                                           h_recorded_price = new_price,
                                           h_demand_factor = demand_factor,
                                           h_seats_remaining = new_remaining\<rparr>]\<rparr>)))))"

text \<open>
  The specification's two inventory operations are the two ways the code calls
  \<^verbatim>\<open>update_flight_inventory\<close>: with \<^verbatim>\<open>-len(booking_req.passengers)\<close> in checkout (line 1091)
  and with a passenger count in cancellation and in the expiry job (lines 1302, 649). A
  length and a \<^verbatim>\<open>COUNT(*)\<close> are natural numbers.
\<close>

definition reserve :: "db \<Rightarrow> int \<Rightarrow> nat \<Rightarrow> reading \<Rightarrow> error + db" where
  "reserve conn flight_id n rd = update_flight_inventory conn flight_id (- int n) rd"

definition release :: "db \<Rightarrow> int \<Rightarrow> nat \<Rightarrow> reading \<Rightarrow> error + db" where
  "release conn flight_id n rd = update_flight_inventory conn flight_id (int n) rd"

text \<open>
  A sequence of operations on one flight, each with its own reading; an operation that
  raises has written nothing, and the next one runs on the state it found.
\<close>

datatype inventory_op = Reserve nat reading | Release nat reading

fun apply_inventory_op :: "int \<Rightarrow> inventory_op \<Rightarrow> db \<Rightarrow> error + db" where
  "apply_inventory_op flight_id (Reserve n rd) conn = reserve conn flight_id n rd"
| "apply_inventory_op flight_id (Release n rd) conn = release conn flight_id n rd"

fun run_inventory_ops :: "int \<Rightarrow> inventory_op list \<Rightarrow> db \<Rightarrow> db" where
  "run_inventory_ops flight_id [] conn = conn"
| "run_inventory_ops flight_id (x # xs) conn =
     (case apply_inventory_op flight_id x conn of
        Inl e \<Rightarrow> run_inventory_ops flight_id xs conn
      | Inr conn' \<Rightarrow> run_inventory_ops flight_id xs conn')"

text \<open>The invariant of a flight row, and the demand tiers in the specification's words.\<close>

definition seats_in_range :: "flight \<Rightarrow> bool" where
  "seats_in_range f \<longleftrightarrow> 0 \<le> f_seats_remaining f \<and> f_seats_remaining f \<le> f_total_seats f"

definition spec_demand_tier :: "rat \<Rightarrow> rat" where
  "spec_demand_tier share =
     (if share \<le> 5 / 100 then 16 / 10
      else if share \<le> 10 / 100 then 14 / 10
      else if share \<le> 20 / 100 then 12 / 10
      else 1)"

definition get_flight :: "db \<Rightarrow> int \<Rightarrow> flight option" where
  "get_flight conn flight_id = find (\<lambda>f. f_id f = flight_id) (flights conn)"

text \<open>A database with one user and one flight of ten seats, three of them left.\<close>

definition example_flight :: flight where
  "example_flight =
     \<lparr>f_id = 1, f_total_seats = 10, f_seats_remaining = 3, f_base_price = 100,
      f_demand_factor = 1, f_departure_time = hours 80, f_status = SCHEDULED\<rparr>"

definition example_db :: db where
  "example_db =
     \<lparr>users = [\<lparr>u_id = 7, u_role = CUSTOMER\<rparr>], flights = [example_flight], bookings = [],
      passengers = [], flight_price_history = [], payments = [], cancelled_bookings = []\<rparr>"

section \<open>Checkout\<close>

text \<open>
  The request body (\<^verbatim>\<open>BookingRequest\<close>, \<^verbatim>\<open>PassengerIn\<close>) without the contact fields. What
  one attempt takes from outside the database is collected in \<open>checkout_env\<close>: the clock
  at line 1042, the reading of the call that computes the price (line 1050), the rounding
  of the total at line 1057, the reading of the call that prices the history entry, SQLite's \<^verbatim>\<open>CURRENT_TIMESTAMP\<close> for \<^verbatim>\<open>booking_date\<close>, the \<^verbatim>\<open>uuid\<close> draw of the PNR
  (line 1060), the \<^verbatim>\<open>secrets\<close> draw of the payment reference (line 1094) and the outcome
  \<^verbatim>\<open>random.random() > 0.02\<close> of the simulated payment (line 1095).
\<close>

record passenger_in =
  pi_full_name :: string
  pi_passenger_type :: passenger_type
  pi_seat_number :: string
  pi_seat_type :: seat_type

record booking_request =
  r_flight_id :: int
  r_passengers :: "passenger_in list"
  r_user_id :: int
  r_payment_method :: payment_method

record checkout_env =
  e_now_check :: datetime
  e_price_reading :: reading
  e_round_total :: "rat \<Rightarrow> rat"
  e_history_reading :: reading
  e_current_timestamp :: string
  e_pnr :: string
  e_payment_ref :: string
  e_payment_success :: bool

record confirmation =
  conf_pnr :: string
  conf_booking_id :: int
  conf_payment_reference :: string
  conf_price_paid :: rat

text \<open>
  \<^verbatim>\<open>cur.lastrowid\<close> after the insert into \<^verbatim>\<open>booking\<close>: the \<^verbatim>\<open>AUTOINCREMENT\<close> key is one more
  than the largest key handed out so far; no statement of the application deletes a booking.
\<close>

definition next_booking_id :: "db \<Rightarrow> int" where
  "next_booking_id conn = foldr max (map b_id (bookings conn)) 0 + 1"

text \<open>
  An SQLite \<^verbatim>\<open>INTEGER\<close> is a signed 64-bit number. \<^verbatim>\<open>BookingRequest.flight_id\<close> is a Python
  \<^verbatim>\<open>int\<close> with the one constraint \<^verbatim>\<open>gt=0\<close>; binding a value outside the 64-bit range as a
  parameter of a statement raises \<^verbatim>\<open>OverflowError\<close>.
\<close>

definition sqlite_integer :: "int \<Rightarrow> bool" where
  "sqlite_integer i \<longleftrightarrow> - (2 ^ 63) \<le> i \<and> i < 2 ^ 63"

text \<open>
  Lines 1024-1047, the checks before anything is written. The \<^verbatim>\<open>SELECT\<close> of line 1025
  binds the flight id of the request. The two joins with \<^verbatim>\<open>airport_lookup\<close> find a row for
  every flight, since both airport codes are foreign keys.
\<close>

definition checkout_validate :: "db \<Rightarrow> booking_request \<Rightarrow> datetime \<Rightarrow> error + flight" where
  "checkout_validate conn booking_req now =
     (if \<not> sqlite_integer (r_flight_id booking_req) then Inl OverflowError
      else
        case find (\<lambda>f. f_id f = r_flight_id booking_req) (flights conn) of
          None \<Rightarrow> Inl NotFoundError
        | Some flight \<Rightarrow>
            if f_status flight \<noteq> SCHEDULED then Inl InvalidStateError
            else if f_departure_time flight < now then Inl InvalidStateError
            else if f_seats_remaining flight < int (length (r_passengers booking_req))
            then Inl CapacityError
            else Inr flight)"

text \<open>
  Lines 1063-1072. The insert fails on a PNR already in the table (\<^verbatim>\<open>UNIQUE\<close>), on a
  negative price (\<^verbatim>\<open>CHECK(price_paid >= 0)\<close>) and on an unknown user (foreign key).
\<close>

definition insert_booking ::
  "db \<Rightarrow> booking_request \<Rightarrow> string \<Rightarrow> rat \<Rightarrow> string \<Rightarrow> error + int \<times> db" where
  "insert_booking conn booking_req pnr total_price current_timestamp =
     (if pnr \<in> set (map b_pnr (bookings conn)) \<or> total_price < 0
         \<or> r_user_id booking_req \<notin> set (map u_id (users conn))
      then Inl IntegrityError
      else
        (let booking_id = next_booking_id conn
         in Inr (booking_id,
              conn\<lparr>bookings := bookings conn @
                [\<lparr>b_id = booking_id, b_user_id = r_user_id booking_req,
                  b_flight_id = r_flight_id booking_req, b_pnr = pnr,
                  b_price_paid = total_price, b_booking_date = current_timestamp,
                  b_status = PENDING, b_payment_reference = None,
                  b_cancellation_date = None, b_refund_amount = None\<rparr>]\<rparr>)))"

text \<open>
  Lines 1075-1088, the loop over the passengers. The unique index
  \<^verbatim>\<open>idx_unique_seat_per_flight ON passenger(flight_id, seat_number)\<close> ranges over every row of
  the table; the \<^verbatim>\<open>IntegrityError\<close> is turned into the 409 at line 1088.
\<close>

fun insert_passengers :: "db \<Rightarrow> int \<Rightarrow> int \<Rightarrow> passenger_in list \<Rightarrow> error + db" where
  "insert_passengers conn booking_id flight_id [] = Inr conn"
| "insert_passengers conn booking_id flight_id (passenger # rest) =
     (if (flight_id, pi_seat_number passenger)
           \<in> set (map (\<lambda>p. (p_flight_id p, p_seat_number p)) (passengers conn))
      then Inl ConflictError
      else insert_passengers
             (conn\<lparr>passengers := passengers conn @
                [\<lparr>p_booking_id = booking_id, p_flight_id = flight_id,
                  p_seat_number = pi_seat_number passenger,
                  p_seat_type = pi_seat_type passenger,
                  p_full_name = pi_full_name passenger,
                  p_passenger_type = pi_passenger_type passenger\<rparr>]\<rparr>)
             booking_id flight_id rest)"

text \<open>Lines 1099-1103; \<^verbatim>\<open>payment_reference\<close> is \<^verbatim>\<open>UNIQUE\<close>, \<^verbatim>\<open>amount_paid\<close> is checked.\<close>

definition insert_payment ::
  "db \<Rightarrow> int \<Rightarrow> string \<Rightarrow> payment_method \<Rightarrow> rat \<Rightarrow> payment_status \<Rightarrow> error + db" where
  "insert_payment conn booking_id payment_ref method total_price payment_status =
     (if payment_ref \<in> set (map pay_reference (payments conn)) \<or> total_price < 0
      then Inl IntegrityError
      else Inr (conn\<lparr>payments := payments conn @
             [\<lparr>pay_booking_id = booking_id, pay_reference = payment_ref,
               pay_method = method, pay_amount_paid = total_price,
               pay_status = payment_status\<rparr>]\<rparr>))"

text \<open>
  The body of the \<^verbatim>\<open>try\<close> block of \<^verbatim>\<open>do_checkout\<close> (lines 1024-1127), on the connection's
  view of the database after \<^verbatim>\<open>BEGIN IMMEDIATE\<close>. The result is the first exception raised,
  or the response together with the state that line 1116 commits.
\<close>

definition checkout_transaction ::
  "db \<Rightarrow> booking_request \<Rightarrow> checkout_env \<Rightarrow> error + confirmation \<times> db" where
  "checkout_transaction conn booking_req env =
     (case checkout_validate conn booking_req (e_now_check env) of
        Inl e \<Rightarrow> Inl e
      | Inr flight \<Rightarrow>
     (case calculate_dynamic_price (f_base_price flight) (f_seats_remaining flight)
             (f_total_seats flight) (f_demand_factor flight) (f_departure_time flight)
             (e_price_reading env) of
        Inl e \<Rightarrow> Inl e
      | Inr price_per_passenger \<Rightarrow>
     (let total_price =
            e_round_total env
              (price_per_passenger * of_nat (length (r_passengers booking_req)))
      in
     (case insert_booking conn booking_req (e_pnr env) total_price (e_current_timestamp env) of
        Inl e \<Rightarrow> Inl e
      | Inr (booking_id, conn1) \<Rightarrow>
     (case insert_passengers conn1 booking_id (r_flight_id booking_req)
             (r_passengers booking_req) of
        Inl e \<Rightarrow> Inl e
      | Inr conn2 \<Rightarrow>
     (case update_flight_inventory conn2 (r_flight_id booking_req)
             (- int (length (r_passengers booking_req))) (e_history_reading env) of
        Inl e \<Rightarrow> Inl e
      | Inr conn3 \<Rightarrow>
     (case insert_payment conn3 booking_id (e_payment_ref env) (r_payment_method booking_req)
             total_price (if e_payment_success env then PAY_SUCCESS else PAY_FAILED) of
        Inl e \<Rightarrow> Inl e
      | Inr conn4 \<Rightarrow>
          if \<not> e_payment_success env then Inl PaymentDeclinedError
          else
            Inr (\<lparr>conf_pnr = e_pnr env, conf_booking_id = booking_id,
                  conf_payment_reference = e_payment_ref env,
                  conf_price_paid = total_price\<rparr>,
                 conn4\<lparr>bookings :=
                   map (\<lambda>b. if b_id b = booking_id
                             then b\<lparr>b_status := CONFIRMED,
                                    b_payment_reference := Some (e_payment_ref env)\<rparr>
                             else b) (bookings conn4)\<rparr>))))))))"

text \<open>
  The handlers of lines 1129-1135: an \<^verbatim>\<open>HTTPException\<close> is raised again as it is, any other
  exception becomes \<^verbatim>\<open>HTTPException(500, ...)\<close>.
\<close>

fun as_http_exception :: "error \<Rightarrow> error" where
  "as_http_exception ZeroDivisionError = FatalError"
| "as_http_exception IntegrityError = FatalError"
| "as_http_exception OverflowError = FatalError"
| "as_http_exception e = e"

text \<open>
  \<^verbatim>\<open>do_checkout\<close> on the stored database. Every raise inside the \<^verbatim>\<open>try\<close> runs
  \<^verbatim>\<open>conn.rollback()\<close> (lines 1106, 1130, 1133), which discards what the connection wrote
  since \<^verbatim>\<open>BEGIN IMMEDIATE\<close>; only line 1116 commits. The result pairs the response with the
  database that is stored afterwards.
\<close>

definition checkout ::
  "db \<Rightarrow> booking_request \<Rightarrow> checkout_env \<Rightarrow> (error + confirmation) \<times> db" where
  "checkout stored booking_req env =
     (case checkout_transaction stored booking_req env of
        Inl e \<Rightarrow> (Inl (as_http_exception e), stored)
      | Inr (response, conn) \<Rightarrow> (Inr response, conn))"

text \<open>A request of user 7 for seat 12A on flight 1, and the readings of one attempt.\<close>

definition example_request :: booking_request where
  "example_request =
     \<lparr>r_flight_id = 1,
      r_passengers = [\<lparr>pi_full_name = ''Ada Lovelace'', pi_passenger_type = ADULT,
                       pi_seat_number = ''12A'', pi_seat_type = WINDOW\<rparr>],
      r_user_id = 7, r_payment_method = CARD\<rparr>"

definition example_env :: checkout_env where
  "example_env =
     \<lparr>e_now_check = 0, e_price_reading = reading_at 0, e_round_total = round_cents odd,
      e_history_reading = reading_at 0,
      e_current_timestamp = ''2026-01-01 10:00:00'', e_pnr = ''PNR0A1B2C3D'',
      e_payment_ref = ''PAY_0011223344556677'', e_payment_success = True\<rparr>"

section \<open>Cancellation\<close>

text \<open>
  The body of the \<^verbatim>\<open>try\<close> block of \<^verbatim>\<open>cancel_booking\<close> (lines 1251-1304). \<open>usr\<close> is the
  authenticated principal; \<open>refund_reading\<close> is the reading of the call of
  \<^verbatim>\<open>calculate_refund\<close> (line 1272), \<open>current_timestamp\<close> SQLite's \<^verbatim>\<open>CURRENT_TIMESTAMP\<close> in
  the update of the booking and \<open>history_reading\<close> the reading of the call that prices
  the history entry. The join of line 1255 yields
  no row when the booking or its flight is missing; a PNR is \<^verbatim>\<open>UNIQUE\<close>. The passenger
  rows are counted (line 1275) and no statement removes or changes them. The receipt is
  rendered after the commit from the three values returned here.
\<close>

record receipt =
  rc_price_paid :: rat
  rc_refund_amount :: rat
  rc_policy :: string

definition cancel_transaction ::
  "db \<Rightarrow> string \<Rightarrow> string \<Rightarrow> user \<Rightarrow> reading \<Rightarrow> string \<Rightarrow> reading
     \<Rightarrow> error + receipt \<times> db" where
  "cancel_transaction conn pnr reason usr refund_reading current_timestamp history_reading =
     (case find (\<lambda>b. b_pnr b = pnr) (bookings conn) of
        None \<Rightarrow> Inl NotFoundError
      | Some booking \<Rightarrow>
     (case find (\<lambda>f. f_id f = b_flight_id booking) (flights conn) of
        None \<Rightarrow> Inl NotFoundError
      | Some flight \<Rightarrow>
          if u_role usr \<noteq> ADMIN \<and> b_user_id booking \<noteq> u_id usr then Inl ForbiddenError
          else if b_status booking \<noteq> CONFIRMED then Inl InvalidStateError
          else
            (let (refund_amount, refund_policy) =
                   calculate_refund (b_price_paid booking) (f_departure_time flight)
                     refund_reading;
                 passenger_count =
                   length (filter (\<lambda>p. p_booking_id p = b_id booking) (passengers conn));
                 conn1 = conn\<lparr>cancelled_bookings := cancelled_bookings conn @
                   [\<lparr>c_pnr = pnr, c_user_id = b_user_id booking,
                     c_flight_id = b_flight_id booking, c_price_paid = b_price_paid booking,
                     c_refund_amount = refund_amount, c_reason = reason\<rparr>]\<rparr>;
                 conn2 = conn1\<lparr>bookings :=
                   map (\<lambda>b. if b_id b = b_id booking
                             then b\<lparr>b_status := CANCELLED,
                                    b_cancellation_date := Some current_timestamp,
                                    b_refund_amount := Some refund_amount\<rparr>
                             else b) (bookings conn1)\<rparr>;
                 conn3 = conn2\<lparr>payments :=
                   map (\<lambda>p. if pay_booking_id p = b_id booking
                             then p\<lparr>pay_status := PAY_REFUNDED\<rparr>
                             else p) (payments conn2)\<rparr>
             in case update_flight_inventory conn3 (b_flight_id booking)
                       (int passenger_count) history_reading of
                  Inl e \<Rightarrow> Inl e
                | Inr conn4 \<Rightarrow>
                    Inr (\<lparr>rc_price_paid = b_price_paid booking,
                          rc_refund_amount = refund_amount,
                          rc_policy = refund_policy\<rparr>, conn4))))"

text \<open>
  \<^verbatim>\<open>cancel_booking\<close> on the stored database: the handlers of lines 1318-1324 roll back and
  raise, line 1304 commits.
\<close>

definition cancel_booking ::
  "db \<Rightarrow> string \<Rightarrow> string \<Rightarrow> user \<Rightarrow> reading \<Rightarrow> string \<Rightarrow> reading
     \<Rightarrow> (error + receipt) \<times> db" where
  "cancel_booking stored pnr reason usr refund_reading current_timestamp history_reading =
     (case cancel_transaction stored pnr reason usr refund_reading current_timestamp
             history_reading of
        Inl e \<Rightarrow> (Inl (as_http_exception e), stored)
      | Inr (response, conn) \<Rightarrow> (Inr response, conn))"

section \<open>Expiry of unpaid bookings\<close>

text \<open>
  The loop of \<^verbatim>\<open>cleanup_expired_bookings\<close> (lines 643-652) over the rows fetched at line
  642. An exception raised by \<^verbatim>\<open>update_flight_inventory\<close> leaves the loop; \<open>rd\<close> is the
  reading used to price the history entries.
\<close>

fun cleanup_loop :: "db \<Rightarrow> booking list \<Rightarrow> reading \<Rightarrow> error + db" where
  "cleanup_loop conn [] rd = Inr conn"
| "cleanup_loop conn (booking # rest) rd =
     (let count = length (filter (\<lambda>p. p_booking_id p = b_id booking) (passengers conn))
      in case (if 0 < count
               then update_flight_inventory conn (b_flight_id booking) (int count) rd
               else Inr conn) of
           Inl e \<Rightarrow> Inl e
         | Inr conn1 \<Rightarrow>
             cleanup_loop
               (conn1\<lparr>bookings :=
                  map (\<lambda>b. if b_id b = b_id booking then b\<lparr>b_status := CANCELLED\<rparr> else b)
                    (bookings conn1)\<rparr>)
               rest rd)"

text \<open>
  \<^verbatim>\<open>cleanup_expired_bookings\<close> (lines 630-658) on the stored database. \<open>cutoff\<close> is the
  string \<^verbatim>\<open>(datetime.now() - timedelta(minutes=15)).isoformat()\<close>, compared with the text
  column \<^verbatim>\<open>booking_date\<close>. The one \<^verbatim>\<open>try\<close> encloses the whole job and the one
  \<^verbatim>\<open>conn.commit()\<close> (line 654) follows the loop: an exception from any iteration reaches
  the \<^verbatim>\<open>except\<close> of \<^verbatim>\<open>get_db\<close>, which rolls back and logs it (lines 131-132), and then
  the \<^verbatim>\<open>except\<close> of the job, which logs it again (line 658). The result is the database
  stored afterwards and the logged exception, if any.
\<close>

definition cleanup_expired_bookings :: "db \<Rightarrow> string \<Rightarrow> reading \<Rightarrow> db \<times> error option" where
  "cleanup_expired_bookings stored cutoff rd =
     (let expired =
            filter (\<lambda>b. b_status b = PENDING \<and> b_booking_date b < cutoff) (bookings stored)
      in case cleanup_loop stored expired rd of
           Inl e \<Rightarrow> (stored, Some e)
         | Inr conn \<Rightarrow> (conn, None))"

text \<open>
  Example states: the database after the example checkout, and after user 7 has cancelled
  that booking; a later attempt for the same seat; and a database with two unpaid bookings
  of which the first refers to a flight that has no row.
\<close>

definition example_booked_db :: db where
  "example_booked_db = snd (checkout example_db example_request example_env)"

definition example_user :: user where
  "example_user = \<lparr>u_id = 7, u_role = CUSTOMER\<rparr>"

definition example_cancelled_db :: db where
  "example_cancelled_db =
     snd (cancel_booking example_booked_db ''PNR0A1B2C3D'' ''User requested'' example_user
            (reading_at 0) ''2026-01-02 09:00:00'' (reading_at 0))"

definition example_env2 :: checkout_env where
  "example_env2 =
     example_env\<lparr>e_current_timestamp := ''2026-01-02 10:00:00'', e_pnr := ''PNR9F8E7D6C'',
                 e_payment_ref := ''PAY_8899AABBCCDDEEFF''\<rparr>"

definition example_pending_db :: db where
  "example_pending_db =
     example_db\<lparr>
       bookings :=
         [\<lparr>b_id = 1, b_user_id = 7, b_flight_id = 9, b_pnr = ''PNR00000001'',
           b_price_paid = 100, b_booking_date = ''2026-01-01 10:00:00'', b_status = PENDING,
           b_payment_reference = None, b_cancellation_date = None, b_refund_amount = None\<rparr>,
          \<lparr>b_id = 2, b_user_id = 7, b_flight_id = 1, b_pnr = ''PNR00000002'',
           b_price_paid = 115, b_booking_date = ''2026-01-01 10:05:00'', b_status = PENDING,
           b_payment_reference = None, b_cancellation_date = None, b_refund_amount = None\<rparr>],
       passengers :=
         [\<lparr>p_booking_id = 1, p_flight_id = 9, p_seat_number = ''1A'', p_seat_type = WINDOW,
           p_full_name = ''Grace Hopper'', p_passenger_type = ADULT\<rparr>,
          \<lparr>p_booking_id = 2, p_flight_id = 1, p_seat_number = ''2B'', p_seat_type = MIDDLE,
           p_full_name = ''Ada Lovelace'', p_passenger_type = ADULT\<rparr>]\<rparr>"

text \<open>
  A flight at a base price of 50.10 with all ten seats left, for which the exact price
  80 hours before departure is 52.605, and a request for two seats on it; readings that
  resolve ties upwards and downwards.
\<close>

definition example_tie_flight :: flight where
  "example_tie_flight =
     \<lparr>f_id = 1, f_total_seats = 10, f_seats_remaining = 10, f_base_price = 501 / 10,
      f_demand_factor = 1, f_departure_time = hours 80, f_status = SCHEDULED\<rparr>"

definition example_tie_db :: db where
  "example_tie_db = example_db\<lparr>flights := [example_tie_flight]\<rparr>"

definition example_tie_request :: booking_request where
  "example_tie_request =
     example_request\<lparr>r_passengers :=
       [\<lparr>pi_full_name = ''Ada Lovelace'', pi_passenger_type = ADULT,
         pi_seat_number = ''12A'', pi_seat_type = WINDOW\<rparr>,
        \<lparr>pi_full_name = ''Grace Hopper'', pi_passenger_type = ADULT,
         pi_seat_number = ''12B'', pi_seat_type = MIDDLE\<rparr>]\<rparr>"

definition ties_up :: "datetime \<Rightarrow> reading" where
  "ties_up t = \<lparr>rd_now = t, rd_round2 = round_cents (\<lambda>_. True)\<rparr>"

definition ties_down :: "datetime \<Rightarrow> reading" where
  "ties_down t = \<lparr>rd_now = t, rd_round2 = round_cents (\<lambda>_. False)\<rparr>"

definition example_tie_env :: checkout_env where
  "example_tie_env = example_env\<lparr>e_price_reading := ties_up 0\<rparr>"

text \<open>The booked example with a price paid of 50.05, whose refund at 90 percent is a tie.\<close>

definition example_refund_db :: db where
  "example_refund_db =
     example_booked_db\<lparr>bookings :=
       map (\<lambda>b. b\<lparr>b_price_paid := 5005 / 100\<rparr>) (bookings example_booked_db)\<rparr>"

section \<open>Properties of pricing\<close>

lemma is_cents_of_int: "is_cents (of_int k / 100)"
  by (simp add: is_cents_def)

lemma is_cents_obtain:
  assumes "is_cents y"
  obtains k :: int where "y = of_int k / 100"
proof
  from assms have e: "of_int \<lfloor>y * 100\<rfloor> = y * 100" unfolding is_cents_def .
  have "y = (y * 100) / 100" by simp
  also have "\<dots> = of_int \<lfloor>y * 100\<rfloor> / 100" by (simp only: e)
  finally show "y = of_int \<lfloor>y * 100\<rfloor> / 100" .
qed

text \<open>Every tie rule gives a rounding to cents.\<close>

lemma round_cents_rounds: "rounds_to_cents (round_cents up)"
  unfolding rounds_to_cents_def
proof (intro allI conjI)
  fix x :: rat
  let ?f = "\<lfloor>x * 100\<rfloor>"
  let ?k = "if x * 100 - of_int ?f < 1 / 2 then ?f
            else if 1 / 2 < x * 100 - of_int ?f then ?f + 1
            else if up ?f then ?f + 1 else ?f"
  have r: "round_cents up x = of_int ?k / 100"
    by (simp add: round_cents_def Let_def)
  show "is_cents (round_cents up x)"
    unfolding r by (rule is_cents_of_int)
  have lo: "of_int ?f \<le> x * 100" and hi: "x * 100 < of_int ?f + 1"
    by linarith+
  have "\<bar>of_int ?k - x * 100\<bar> \<le> 1 / 2"
    using lo hi by (auto simp: abs_le_iff)
  then have "\<bar>(of_int ?k - x * 100) / 100\<bar> \<le> (1 / 2) / 100"
    unfolding abs_divide by (simp add: divide_right_mono)
  then show "\<bar>round_cents up x - x\<bar> \<le> 1 / 200"
    unfolding r by (simp add: diff_divide_distrib)
qed

text \<open>A rounding to cents leaves a whole number of cents as it is.\<close>

lemma rounds_to_cents_fixes:
  assumes "rounds_to_cents round2" and "is_cents x"
  shows "round2 x = x"
proof -
  from assms(1) have c: "is_cents (round2 x)" and d: "\<bar>round2 x - x\<bar> \<le> 1 / 200"
    by (simp_all add: rounds_to_cents_def)
  from c obtain a :: int where a: "round2 x = of_int a / 100" by (rule is_cents_obtain)
  from assms(2) obtain b :: int where b: "x = of_int b / 100" by (rule is_cents_obtain)
  from d have "\<bar>of_int a / 100 - x\<bar> \<le> 1 / 200" by (simp only: a)
  then have "\<bar>(of_int a :: rat) / 100 - of_int b / 100\<bar> \<le> 1 / 200" by (simp only: b)
  then have "(of_int a :: rat) - of_int b < 1" and "(of_int b :: rat) - of_int a < 1"
    unfolding abs_le_iff by linarith+
  then have "(of_int (a - b) :: rat) < 1" and "(of_int (b - a) :: rat) < 1" by simp_all
  then have "a - b < 1" and "b - a < 1" by (simp_all only: of_int_less_1_iff)
  then have "a = b" by linarith
  then show ?thesis using a b by metis
qed

text \<open>A rounding to cents is monotone.\<close>

lemma rounds_to_cents_mono:
  assumes "rounds_to_cents round2" and "x \<le> y"
  shows "round2 x \<le> round2 y"
proof (cases "x = y")
  case True
  then show ?thesis by simp
next
  case False
  with assms(2) have xy: "x < y" by simp
  from assms(1) have cx: "is_cents (round2 x)" and dx: "\<bar>round2 x - x\<bar> \<le> 1 / 200"
    and cy: "is_cents (round2 y)" and dy: "\<bar>round2 y - y\<bar> \<le> 1 / 200"
    by (simp_all add: rounds_to_cents_def)
  from cx obtain a :: int where a: "round2 x = of_int a / 100" by (rule is_cents_obtain)
  from cy obtain b :: int where b: "round2 y = of_int b / 100" by (rule is_cents_obtain)
  from dx dy xy have "round2 x - round2 y < 1 / 100" unfolding abs_le_iff by linarith
  then have "(of_int a :: rat) / 100 - of_int b / 100 < 1 / 100" by (simp only: a b)
  then have "(of_int a :: rat) - of_int b < 1" by linarith
  then have "(of_int (a - b) :: rat) < 1" by simp
  then have "a - b < 1" by (simp only: of_int_less_1_iff)
  then have "a \<le> b" by linarith
  then show ?thesis by (simp add: a b divide_right_mono)
qed

text \<open>The division is guarded, so the function always returns; its value in one equation.\<close>

lemma calculate_dynamic_price_eq:
  "calculate_dynamic_price base_price seats_remaining total_seats demand_factor departure_time rd =
     Inr (rd_round2 rd (base_price *
       (1 + spec_seat_surcharge (of_int seats_remaining /
               of_int (if total_seats \<le> 0 then 1 else total_seats))
          + spec_time_surcharge (hours_until departure_time (rd_now rd))) * demand_factor))"
  by (simp add: calculate_dynamic_price_def py_truediv_def spec_seat_surcharge_def
      spec_time_surcharge_def Let_def)

lemma spec_seat_surcharge_antimono:
  "a \<le> b \<Longrightarrow> spec_seat_surcharge b \<le> spec_seat_surcharge a"
  by (simp add: spec_seat_surcharge_def)

text \<open>
  Claim C3. For a positive number of seats the pricing function rounds
  \<open>base * (1 + seat surcharge + time surcharge) * demand_factor\<close> to two decimals, with the
  seat surcharge chosen by the remaining share (at most 5 percent: 0.60, at most 10 percent:
  0.40, at most 20 percent: 0.20, at most 50 percent: 0.10, otherwise 0) and the time
  surcharge by the hours to departure (negative: 0, under 6: 0.30, under 24: 0.20, under 72:
  0.10, otherwise 0.05): the price returned is a whole number of cents at most half a cent
  from that value. A base of 100 with 2 of 2 seats left, demand factor 1 and departure in
  80 hours costs 105.00.
\<close>

theorem pricing_formula:
  assumes "0 < total_seats"
  shows "calculate_dynamic_price base_price seats_remaining total_seats demand_factor
             departure_time rd =
           Inr (rd_round2 rd (base_price *
             (1 + spec_seat_surcharge (of_int seats_remaining / of_int total_seats)
                + spec_time_surcharge (hours_until departure_time (rd_now rd))) * demand_factor))
         \<and> (rounds_to_cents (rd_round2 rd) \<longrightarrow>
              (\<exists>p. calculate_dynamic_price base_price seats_remaining total_seats demand_factor
                     departure_time rd = Inr p
                 \<and> is_cents p
                 \<and> \<bar>p - base_price *
                      (1 + spec_seat_surcharge (of_int seats_remaining / of_int total_seats)
                         + spec_time_surcharge (hours_until departure_time (rd_now rd)))
                      * demand_factor\<bar> \<le> 1 / 200)
              \<and> calculate_dynamic_price 100 2 2 1 (hours 80) (rd\<lparr>rd_now := 0\<rparr>) = Inr 105)"
proof (intro conjI impI)
  show e: "calculate_dynamic_price base_price seats_remaining total_seats demand_factor
             departure_time rd =
           Inr (rd_round2 rd (base_price *
             (1 + spec_seat_surcharge (of_int seats_remaining / of_int total_seats)
                + spec_time_surcharge (hours_until departure_time (rd_now rd))) * demand_factor))"
    using assms by (simp add: calculate_dynamic_price_eq)
  assume r: "rounds_to_cents (rd_round2 rd)"
  then show "\<exists>p. calculate_dynamic_price base_price seats_remaining total_seats demand_factor
                     departure_time rd = Inr p
                 \<and> is_cents p
                 \<and> \<bar>p - base_price *
                      (1 + spec_seat_surcharge (of_int seats_remaining / of_int total_seats)
                         + spec_time_surcharge (hours_until departure_time (rd_now rd)))
                      * demand_factor\<bar> \<le> 1 / 200"
    unfolding e by (simp add: rounds_to_cents_def)
  have "calculate_dynamic_price 100 2 2 1 (hours 80) (rd\<lparr>rd_now := 0\<rparr>)
      = Inr (rd_round2 rd 105)"
    by (simp add: calculate_dynamic_price_eq spec_seat_surcharge_def spec_time_surcharge_def
        hours_until_def hours_def)
  moreover have "rd_round2 rd 105 = 105"
    using r by (rule rounds_to_cents_fixes) (simp add: is_cents_def)
  ultimately show "calculate_dynamic_price 100 2 2 1 (hours 80) (rd\<lparr>rd_now := 0\<rparr>) = Inr 105"
    by simp
qed

text \<open>
  At a tie: a base of 50.10 with all seats left 80 hours before departure has the exact
  price 52.605. A reading that resolves the tie upwards returns 52.61, one that resolves
  it downwards 52.60; both are half a cent from the exact price.
\<close>

theorem pricing_formula_witness:
  "(0::int) < 10 \<and> rounds_to_cents (rd_round2 (ties_up 0))
   \<and> calculate_dynamic_price (501 / 10) 10 10 1 (hours 80) (ties_up 0) = Inr (5261 / 100)
   \<and> calculate_dynamic_price (501 / 10) 10 10 1 (hours 80) (ties_down 0) = Inr (5260 / 100)
   \<and> (\<exists>p. calculate_dynamic_price (501 / 10) 10 10 1 (hours 80) (ties_up 0) = Inr p
          \<and> is_cents p \<and> \<bar>p - 52605 / 1000\<bar> \<le> 1 / 200)
   \<and> calculate_dynamic_price 100 2 2 1 (hours 80) (ties_up 0) = Inr 105"
proof -
  have h: "(0::int) < 10" by simp
  have v: "rounds_to_cents (rd_round2 (ties_up 0))"
    by (simp add: ties_up_def round_cents_rounds)
  have u: "calculate_dynamic_price (501 / 10) 10 10 1 (hours 80) (ties_up 0) = Inr (5261 / 100)"
    by code_simp
  have d: "calculate_dynamic_price (501 / 10) 10 10 1 (hours 80) (ties_down 0) = Inr (5260 / 100)"
    by code_simp
  have x: "(501 / 10 :: rat) *
      (1 + spec_seat_surcharge (of_int 10 / of_int 10)
         + spec_time_surcharge (hours_until (hours 80) (rd_now (ties_up 0)))) * 1 = 52605 / 1000"
    by (simp add: spec_seat_surcharge_def spec_time_surcharge_def hours_until_def hours_def
        ties_up_def)
  have z: "(ties_up 0)\<lparr>rd_now := 0\<rparr> = ties_up 0" by (simp add: ties_up_def)
  from pricing_formula [OF h, of "501 / 10" 10 1 "hours 80" "ties_up 0"] v
  have "(\<exists>p. calculate_dynamic_price (501 / 10) 10 10 1 (hours 80) (ties_up 0) = Inr p
          \<and> is_cents p \<and> \<bar>p - 52605 / 1000\<bar> \<le> 1 / 200)
      \<and> calculate_dynamic_price 100 2 2 1 (hours 80) (ties_up 0) = Inr 105"
    unfolding x z by blast
  with h v u d show ?thesis by blast
qed

text \<open>
  Further ties, each resolved the way the program resolves it: a base of 1.02 at 2 of 10
  seats has the exact price 1.275 and comes back as 1.27; the refunds of 50.05 and of
  115.05 at 90 percent, exactly 45.045 and 103.545, come back as 45.05 and 103.55.
\<close>

lemma tie_examples:
  "calculate_dynamic_price (102 / 100) 2 10 1 (hours 80) (ties_down 0) = Inr (127 / 100)
   \<and> calculate_refund (5005 / 100) (hours 80) (ties_up 0)
       = (4505 / 100, ''More than 72 hours before departure'')
   \<and> calculate_refund (11505 / 100) (hours 80) (ties_up 0)
       = (10355 / 100, ''More than 72 hours before departure'')"
  by code_simp

text \<open>
  Monotonicity for every demand factor that is not negative. Both prices come from calls
  with the same reading: two calls that differ in the seats left only and have the same
  exact price evaluate the same expression on the same operands.
\<close>

lemma pricing_monotone_nonneg:
  assumes "0 < base_price" and "0 < total_seats" and "0 \<le> demand_factor"
    and "s2 \<le> s1" and "rounds_to_cents (rd_round2 rd)"
    and "calculate_dynamic_price base_price s1 total_seats demand_factor departure_time rd
           = Inr p1"
    and "calculate_dynamic_price base_price s2 total_seats demand_factor departure_time rd
           = Inr p2"
  shows "p1 \<le> p2"
proof -
  let ?t = "spec_time_surcharge (hours_until departure_time (rd_now rd))"
  let ?u1 = "spec_seat_surcharge (of_int s1 / of_int total_seats)"
  let ?u2 = "spec_seat_surcharge (of_int s2 / of_int total_seats)"
  have sh: "(of_int s2 :: rat) / of_int total_seats \<le> of_int s1 / of_int total_seats"
    using assms(2,4) by (simp add: divide_right_mono)
  have "?u1 \<le> ?u2"
    using sh by (rule spec_seat_surcharge_antimono)
  then have "base_price * (1 + ?u1 + ?t) \<le> base_price * (1 + ?u2 + ?t)"
    using assms(1) by simp
  then have "base_price * (1 + ?u1 + ?t) * demand_factor
          \<le> base_price * (1 + ?u2 + ?t) * demand_factor"
    using assms(3) by (rule mult_right_mono)
  then have "rd_round2 rd (base_price * (1 + ?u1 + ?t) * demand_factor)
          \<le> rd_round2 rd (base_price * (1 + ?u2 + ?t) * demand_factor)"
    by (rule rounds_to_cents_mono [OF assms(5)])
  then show ?thesis using assms(2,6,7) by (simp add: calculate_dynamic_price_eq)
qed

text \<open>
  Claim C9. For a positive base price, a positive number of seats, a demand factor of the
  flight table (the column is checked to lie between 0.5 and 2.0) and a fixed time to
  departure, the price with \<open>s2\<close> seats left is at least the price with \<open>s1\<close> seats left
  whenever \<open>0 \<le> s2 \<le> s1 \<le> total_seats\<close>.
\<close>

theorem pricing_monotone:
  assumes "0 < base_price" and "0 < total_seats"
    and "1 / 2 \<le> demand_factor" and "demand_factor \<le> 2"
    and "0 \<le> s2" and "s2 \<le> s1" and "s1 \<le> total_seats"
    and "rounds_to_cents (rd_round2 rd)"
    and "calculate_dynamic_price base_price s1 total_seats demand_factor departure_time rd
           = Inr p1"
    and "calculate_dynamic_price base_price s2 total_seats demand_factor departure_time rd
           = Inr p2"
  shows "p1 \<le> p2"
proof -
  from assms(3) have "0 \<le> demand_factor" by simp
  from pricing_monotone_nonneg [OF assms(1,2) this assms(6,8,9,10)] show ?thesis .
qed

text \<open>
  Monotonicity at base 100, 100 seats, demand factor 1.6: 60 seats left against 5; and at
  the tie price of the base of 50.10, where both calls return 52.61.
\<close>

theorem pricing_monotone_witness:
  "(0::rat) < 100 \<and> (0::int) < 100 \<and> (1 / 2 :: rat) \<le> 16 / 10 \<and> (16 / 10 :: rat) \<le> 2
   \<and> (0::int) \<le> 5 \<and> (5::int) \<le> 60 \<and> (60::int) \<le> 100
   \<and> rounds_to_cents (rd_round2 (ties_up 0))
   \<and> calculate_dynamic_price 100 60 100 (16 / 10) (hours 80) (ties_up 0) = Inr 168
   \<and> calculate_dynamic_price 100 5 100 (16 / 10) (hours 80) (ties_up 0) = Inr 264
   \<and> (168::rat) \<le> 264"
proof -
  have v: "rounds_to_cents (rd_round2 (ties_up 0))"
    by (simp add: ties_up_def round_cents_rounds)
  have e1: "calculate_dynamic_price 100 60 100 (16 / 10) (hours 80) (ties_up 0) = Inr 168"
    by code_simp
  have e2: "calculate_dynamic_price 100 5 100 (16 / 10) (hours 80) (ties_up 0) = Inr 264"
    by code_simp
  have "(168::rat) \<le> 264"
    by (rule pricing_monotone [OF _ _ _ _ _ _ _ v e1 e2]) simp_all
  with v e1 e2 show ?thesis by simp
qed

text \<open>
  Claim C10. The pricing function returns a price for all integer inputs: with
  \<open>total_seats \<le> 0\<close> the divisor is replaced by 1, the division does not raise, and the
  result is the one for \<open>total_seats = 1\<close>.
\<close>

theorem pricing_total:
  "(\<exists>p. calculate_dynamic_price base_price seats_remaining total_seats demand_factor
            departure_time rd = Inr p)
   \<and> (total_seats \<le> 0 \<longrightarrow>
        py_truediv seats_remaining (if total_seats \<le> 0 then 1 else total_seats)
          = Inr (of_int seats_remaining)
        \<and> calculate_dynamic_price base_price seats_remaining total_seats demand_factor
            departure_time rd
          = calculate_dynamic_price base_price seats_remaining 1 demand_factor departure_time rd)"
  by (simp add: calculate_dynamic_price_def py_truediv_def Let_def)

text \<open>With no seats at all (\<open>total_seats = 0\<close>) the price is the one for a single seat.\<close>

theorem pricing_total_witness:
  "(0::int) \<le> 0 \<and>
   calculate_dynamic_price 100 5 0 1 (hours 80) (reading_at 0)
     = calculate_dynamic_price 100 5 1 1 (hours 80) (reading_at 0) \<and>
   calculate_dynamic_price 100 5 0 1 (hours 80) (reading_at 0) = Inr 105"
proof -
  have e: "calculate_dynamic_price 100 5 0 1 (hours 80) (reading_at 0) = Inr 105" by code_simp
  show ?thesis using pricing_total [of 100 5 0 1 "hours 80" "reading_at 0"] e by simp
qed

section \<open>Properties of the inventory\<close>

lemma find_map_same_id:
  assumes "find (\<lambda>f. f_id f = i) xs = Some f" and "\<And>x. f_id (g x) = f_id x"
  shows "find (\<lambda>f. f_id f = i) (map (\<lambda>f. if f_id f = i then g f else f) xs) = Some (g f)"
  using assms by (induction xs) (auto split: if_splits)

lemma update_flight_inventory_eq:
  assumes "get_flight conn flight_id = Some f"
  shows "update_flight_inventory conn flight_id c rd =
     (if f_seats_remaining f + c < 0 then Inl CapacityError
      else if f_total_seats f = 0 then Inl ZeroDivisionError
      else
        (let r = min (f_seats_remaining f + c) (f_total_seats f);
             d = spec_demand_tier (of_int r / of_int (f_total_seats f))
         in Inr (conn\<lparr>flights :=
                    map (\<lambda>x. if f_id x = flight_id
                              then x\<lparr>f_seats_remaining := r, f_demand_factor := d\<rparr>
                              else x) (flights conn),
                  flight_price_history :=
                    flight_price_history conn @
                      [\<lparr>h_flight_id = flight_id,
                        h_recorded_price = rd_round2 rd (f_base_price f *
                           (1 + spec_seat_surcharge (of_int r / of_int
                                  (if f_total_seats f \<le> 0 then 1 else f_total_seats f))
                              + spec_time_surcharge (hours_until (f_departure_time f) (rd_now rd)))
                              * d),
                        h_demand_factor = d,
                        h_seats_remaining = r\<rparr>]\<rparr>)))"
  using assms
  by (simp add: update_flight_inventory_def get_flight_def py_truediv_def
      calculate_dynamic_price_eq spec_demand_tier_def Let_def min_def)

text \<open>The effect of a call that returns.\<close>

lemma update_flight_inventory_Inr:
  assumes g: "get_flight conn flight_id = Some f"
    and u: "update_flight_inventory conn flight_id c rd = Inr conn'"
  shows "\<exists>f' e. get_flight conn' flight_id = Some f'
           \<and> 0 \<le> f_seats_remaining f + c
           \<and> f_seats_remaining f' = min (f_seats_remaining f + c) (f_total_seats f)
           \<and> f_total_seats f' = f_total_seats f
           \<and> f_demand_factor f' =
               spec_demand_tier (of_int (f_seats_remaining f') / of_int (f_total_seats f'))
           \<and> flight_price_history conn' = flight_price_history conn @ [e]
           \<and> h_flight_id e = flight_id
           \<and> h_seats_remaining e = f_seats_remaining f'
           \<and> h_demand_factor e = f_demand_factor f'"
proof -
  let ?r = "min (f_seats_remaining f + c) (f_total_seats f)"
  let ?d = "spec_demand_tier (of_int ?r / of_int (f_total_seats f))"
  let ?g = "\<lambda>x. x\<lparr>f_seats_remaining := ?r, f_demand_factor := ?d\<rparr>"
  from u have nn: "\<not> f_seats_remaining f + c < 0" and nz: "f_total_seats f \<noteq> 0"
    by (auto simp: update_flight_inventory_eq [OF g] split: if_splits)
  from u nn nz have fl: "flights conn' =
      map (\<lambda>x. if f_id x = flight_id then ?g x else x) (flights conn)"
    and hi: "\<exists>e. flight_price_history conn' = flight_price_history conn @ [e]
        \<and> h_flight_id e = flight_id \<and> h_seats_remaining e = ?r \<and> h_demand_factor e = ?d"
    by (auto simp: update_flight_inventory_eq [OF g] Let_def)
  have "find (\<lambda>x. f_id x = flight_id) (flights conn) = Some f"
    using g by (simp add: get_flight_def)
  then have "find (\<lambda>x. f_id x = flight_id)
      (map (\<lambda>x. if f_id x = flight_id then ?g x else x) (flights conn)) = Some (?g f)"
    by (rule find_map_same_id) simp
  then have gf: "get_flight conn' flight_id = Some (?g f)"
    by (simp add: get_flight_def fl)
  from hi obtain e where "flight_price_history conn' = flight_price_history conn @ [e]"
     "h_flight_id e = flight_id" "h_seats_remaining e = ?r" "h_demand_factor e = ?d"
    by blast
  with gf nn show ?thesis by (intro exI [of _ "?g f"] exI [of _ e]) simp
qed

lemma update_flight_inventory_range:
  assumes "get_flight conn flight_id = Some f" and "seats_in_range f"
    and "update_flight_inventory conn flight_id c rd = Inr conn'"
  shows "\<exists>f'. get_flight conn' flight_id = Some f' \<and> seats_in_range f'
           \<and> f_total_seats f' = f_total_seats f"
proof -
  from update_flight_inventory_Inr [OF assms(1,3)] obtain f' where
    "get_flight conn' flight_id = Some f'" "0 \<le> f_seats_remaining f + c"
    "f_seats_remaining f' = min (f_seats_remaining f + c) (f_total_seats f)"
    "f_total_seats f' = f_total_seats f"
    by blast
  with assms(2) show ?thesis by (auto simp: seats_in_range_def)
qed

lemma apply_inventory_op_range:
  assumes "get_flight conn flight_id = Some f" and "seats_in_range f"
    and "apply_inventory_op flight_id x conn = Inr conn'"
  shows "\<exists>f'. get_flight conn' flight_id = Some f' \<and> seats_in_range f'
           \<and> f_total_seats f' = f_total_seats f"
  using assms
  by (cases x) (auto simp: reserve_def release_def dest: update_flight_inventory_range)

lemma run_inventory_ops_range:
  assumes "get_flight conn flight_id = Some f" and "seats_in_range f"
  shows "\<exists>f'. get_flight (run_inventory_ops flight_id ops conn) flight_id = Some f'
           \<and> seats_in_range f' \<and> f_total_seats f' = f_total_seats f"
  using assms
proof (induction ops arbitrary: conn f)
  case Nil
  then show ?case by simp
next
  case (Cons x xs)
  show ?case
  proof (cases "apply_inventory_op flight_id x conn")
    case (Inl e)
    then show ?thesis using Cons.IH [OF Cons.prems] by simp
  next
    case (Inr conn')
    from apply_inventory_op_range [OF Cons.prems Inr] obtain f' where
      f': "get_flight conn' flight_id = Some f'" "seats_in_range f'"
        "f_total_seats f' = f_total_seats f" by blast
    from Cons.IH [OF f'(1,2)] f'(3) Inr show ?thesis by simp
  qed
qed


text \<open>
  Claim C2. For a flight with \<open>0 \<le> seats_remaining \<le> total_seats\<close> and every finite
  sequence of reserve and release operations on it, the bounds hold after each operation
  (after every prefix of the sequence), with \<open>total_seats\<close> unchanged. A reserve of more
  seats than remain fails with \<open>CapacityError\<close> and leaves the state as it was. A reserve
  that returns has subtracted \<open>n\<close>; a release that returns has added \<open>n\<close>, clamped to
  \<open>total_seats\<close>; both store the demand factor of the tiers (at most 5 percent: 1.6, at
  most 10 percent: 1.4, at most 20 percent: 1.2, otherwise 1.0) for the new remaining share
  and append exactly one price-history entry carrying the new counters. On a flight with
  seats (\<open>total_seats > 0\<close>) a reserve within the remaining seats and every release return.
\<close>

theorem inventory_capacity_conservation:
  assumes "get_flight conn flight_id = Some f" and "seats_in_range f"
  shows "(\<forall>k \<le> length ops. \<exists>f'.
            get_flight (run_inventory_ops flight_id (take k ops) conn) flight_id = Some f'
            \<and> seats_in_range f' \<and> f_total_seats f' = f_total_seats f)
       \<and> (f_seats_remaining f < int n \<longrightarrow>
            reserve conn flight_id n rd = Inl CapacityError
            \<and> run_inventory_ops flight_id [Reserve n rd] conn = conn)
       \<and> (\<forall>conn'. reserve conn flight_id n rd = Inr conn' \<longrightarrow>
            (\<exists>f' e. get_flight conn' flight_id = Some f'
               \<and> f_seats_remaining f' = f_seats_remaining f - int n
               \<and> f_total_seats f' = f_total_seats f
               \<and> f_demand_factor f' =
                   spec_demand_tier (of_int (f_seats_remaining f') / of_int (f_total_seats f'))
               \<and> flight_price_history conn' = flight_price_history conn @ [e]
               \<and> h_flight_id e = flight_id
               \<and> h_seats_remaining e = f_seats_remaining f'
               \<and> h_demand_factor e = f_demand_factor f'))
       \<and> (\<forall>conn'. release conn flight_id n rd = Inr conn' \<longrightarrow>
            (\<exists>f' e. get_flight conn' flight_id = Some f'
               \<and> f_seats_remaining f' = min (f_seats_remaining f + int n) (f_total_seats f)
               \<and> f_total_seats f' = f_total_seats f
               \<and> f_demand_factor f' =
                   spec_demand_tier (of_int (f_seats_remaining f') / of_int (f_total_seats f'))
               \<and> flight_price_history conn' = flight_price_history conn @ [e]
               \<and> h_flight_id e = flight_id
               \<and> h_seats_remaining e = f_seats_remaining f'
               \<and> h_demand_factor e = f_demand_factor f'))
       \<and> (0 < f_total_seats f \<longrightarrow> int n \<le> f_seats_remaining f \<longrightarrow>
            (\<exists>conn'. reserve conn flight_id n rd = Inr conn'))
       \<and> (0 < f_total_seats f \<longrightarrow> (\<exists>conn'. release conn flight_id n rd = Inr conn'))"
proof (intro conjI allI impI)
  fix k
  show "\<exists>f'. get_flight (run_inventory_ops flight_id (take k ops) conn) flight_id = Some f'
            \<and> seats_in_range f' \<and> f_total_seats f' = f_total_seats f"
    using assms by (rule run_inventory_ops_range)
next
  assume "f_seats_remaining f < int n"
  then show c: "reserve conn flight_id n rd = Inl CapacityError"
    by (simp add: reserve_def update_flight_inventory_eq [OF assms(1)])
  then show "run_inventory_ops flight_id [Reserve n rd] conn = conn"
    by simp
next
  fix conn'
  assume r: "reserve conn flight_id n rd = Inr conn'"
  then have u: "update_flight_inventory conn flight_id (- int n) rd = Inr conn'"
    by (simp add: reserve_def)
  have "min (f_seats_remaining f + - int n) (f_total_seats f) = f_seats_remaining f - int n"
    using assms(2) by (simp add: seats_in_range_def)
  with update_flight_inventory_Inr [OF assms(1) u]
  show "\<exists>f' e. get_flight conn' flight_id = Some f'
               \<and> f_seats_remaining f' = f_seats_remaining f - int n
               \<and> f_total_seats f' = f_total_seats f
               \<and> f_demand_factor f' =
                   spec_demand_tier (of_int (f_seats_remaining f') / of_int (f_total_seats f'))
               \<and> flight_price_history conn' = flight_price_history conn @ [e]
               \<and> h_flight_id e = flight_id
               \<and> h_seats_remaining e = f_seats_remaining f'
               \<and> h_demand_factor e = f_demand_factor f'"
    by (metis (no_types, lifting))
next
  fix conn'
  assume "release conn flight_id n rd = Inr conn'"
  then have u: "update_flight_inventory conn flight_id (int n) rd = Inr conn'"
    by (simp add: release_def)
  from update_flight_inventory_Inr [OF assms(1) u]
  show "\<exists>f' e. get_flight conn' flight_id = Some f'
               \<and> f_seats_remaining f' = min (f_seats_remaining f + int n) (f_total_seats f)
               \<and> f_total_seats f' = f_total_seats f
               \<and> f_demand_factor f' =
                   spec_demand_tier (of_int (f_seats_remaining f') / of_int (f_total_seats f'))
               \<and> flight_price_history conn' = flight_price_history conn @ [e]
               \<and> h_flight_id e = flight_id
               \<and> h_seats_remaining e = f_seats_remaining f'
               \<and> h_demand_factor e = f_demand_factor f'"
    by (metis (no_types, lifting))
next
  assume "0 < f_total_seats f" "int n \<le> f_seats_remaining f"
  then show "\<exists>conn'. reserve conn flight_id n rd = Inr conn'"
    by (simp add: reserve_def update_flight_inventory_eq [OF assms(1)] Let_def)
next
  assume "0 < f_total_seats f"
  then show "\<exists>conn'. release conn flight_id n rd = Inr conn'"
    using assms(2)
    by (simp add: release_def update_flight_inventory_eq [OF assms(1)] Let_def seats_in_range_def)
qed

lemma example_get_flight: "get_flight example_db 1 = Some example_flight"
  by (simp add: get_flight_def example_db_def example_flight_def)

lemma example_seats_in_range: "seats_in_range example_flight"
  by (simp add: seats_in_range_def example_flight_def)

text \<open>The example flight: ten seats, three left.\<close>

theorem inventory_capacity_conservation_witness:
  "get_flight example_db 1 = Some example_flight \<and> seats_in_range example_flight
   \<and> reserve example_db 1 4 (reading_at 0) = Inl CapacityError
   \<and> (\<exists>conn'. reserve example_db 1 3 (reading_at 0) = Inr conn')
   \<and> (\<exists>conn'. release example_db 1 20 (reading_at 0) = Inr conn')
   \<and> (\<exists>f'. get_flight (run_inventory_ops 1
        [Reserve 4 (reading_at 0), Release 20 (reading_at 0), Reserve 10 (reading_at 0)]
        example_db) 1
              = Some f' \<and> seats_in_range f' \<and> f_total_seats f' = 10)"
proof -
  note t = inventory_capacity_conservation [OF example_get_flight example_seats_in_range]
  have a: "f_seats_remaining example_flight < int 4" "0 < f_total_seats example_flight"
    "int 3 \<le> f_seats_remaining example_flight" "f_total_seats example_flight = 10"
    by (simp_all add: example_flight_def)
  have "reserve example_db 1 4 (reading_at 0) = Inl CapacityError"
    using t [of "[]" 4 "reading_at 0"] a(1) by blast
  moreover have "\<exists>conn'. reserve example_db 1 3 (reading_at 0) = Inr conn'"
    using t [of "[]" 3 "reading_at 0"] a(2,3) by blast
  moreover have "\<exists>conn'. release example_db 1 20 (reading_at 0) = Inr conn'"
    using t [of "[]" 20 "reading_at 0"] a(2) by blast
  moreover have "\<exists>f'. get_flight (run_inventory_ops 1
        [Reserve 4 (reading_at 0), Release 20 (reading_at 0), Reserve 10 (reading_at 0)]
        example_db) 1
              = Some f' \<and> seats_in_range f' \<and> f_total_seats f' = 10"
    using t [of "[Reserve 4 (reading_at 0), Release 20 (reading_at 0),
        Reserve 10 (reading_at 0)]" 0 "reading_at 0"] a(4)
    by (auto dest: spec [of _ 3])
  ultimately show ?thesis
    using example_get_flight example_seats_in_range by blast
qed

text \<open>The run of the witness, evaluated: the counters and the two history entries.\<close>

lemma example_run:
  "map f_seats_remaining (flights (run_inventory_ops 1
        [Reserve 4 (reading_at 0), Release 20 (reading_at 0), Reserve 10 (reading_at 0)]
        example_db)) = [0]
  \<and> map f_demand_factor (flights (run_inventory_ops 1
        [Reserve 4 (reading_at 0), Release 20 (reading_at 0), Reserve 10 (reading_at 0)]
        example_db)) = [16/10]
  \<and> map h_seats_remaining (flight_price_history (run_inventory_ops 1
        [Reserve 4 (reading_at 0), Release 20 (reading_at 0), Reserve 10 (reading_at 0)]
        example_db)) = [10, 0]"
  by code_simp

section \<open>Properties of checkout\<close>

lemma insert_passengers_frame:
  "insert_passengers conn booking_id flight_id ps = Inr conn' \<Longrightarrow>
     bookings conn' = bookings conn \<and> flights conn' = flights conn
     \<and> payments conn' = payments conn \<and> users conn' = users conn"
  by (induction ps arbitrary: conn) (auto split: if_splits)

lemma update_flight_inventory_frame:
  "update_flight_inventory conn flight_id c now = Inr conn' \<Longrightarrow>
     bookings conn' = bookings conn \<and> passengers conn' = passengers conn
     \<and> payments conn' = payments conn \<and> users conn' = users conn
     \<and> cancelled_bookings conn' = cancelled_bookings conn"
  by (auto simp: update_flight_inventory_def Let_def split: option.splits if_splits sum.splits)

lemma foldr_max_upper: "x \<in> set xs \<Longrightarrow> x \<le> foldr max xs (0::int)"
  by (induction xs) auto

lemma next_booking_id_fresh: "b \<in> set (bookings conn) \<Longrightarrow> b_id b < next_booking_id conn"
  using foldr_max_upper [of "b_id b" "map b_id (bookings conn)"]
  by (simp add: next_booking_id_def)

lemma find_fresh_append:
  assumes "\<And>x. x \<in> set xs \<Longrightarrow> \<not> P x" and "P y"
  shows "find P (xs @ [y]) = Some y"
  using assms by (induction xs) auto

text \<open>The steps of an attempt that commits.\<close>

lemma checkout_transaction_Inr:
  assumes "checkout_transaction conn req env = Inr (r, conn')"
  shows "\<exists>flight p booking_id conn1 conn2 conn3 conn4.
     checkout_validate conn req (e_now_check env) = Inr flight
     \<and> calculate_dynamic_price (f_base_price flight) (f_seats_remaining flight)
          (f_total_seats flight) (f_demand_factor flight) (f_departure_time flight)
          (e_price_reading env) = Inr p
     \<and> insert_booking conn req (e_pnr env)
          (e_round_total env (p * of_nat (length (r_passengers req)))) (e_current_timestamp env)
          = Inr (booking_id, conn1)
     \<and> insert_passengers conn1 booking_id (r_flight_id req) (r_passengers req) = Inr conn2
     \<and> update_flight_inventory conn2 (r_flight_id req) (- int (length (r_passengers req)))
          (e_history_reading env) = Inr conn3
     \<and> insert_payment conn3 booking_id (e_payment_ref env) (r_payment_method req)
          (e_round_total env (p * of_nat (length (r_passengers req)))) PAY_SUCCESS = Inr conn4
     \<and> e_payment_success env
     \<and> r = \<lparr>conf_pnr = e_pnr env, conf_booking_id = booking_id,
             conf_payment_reference = e_payment_ref env,
             conf_price_paid = e_round_total env (p * of_nat (length (r_passengers req)))\<rparr>
     \<and> conn' = conn4\<lparr>bookings :=
                   map (\<lambda>b. if b_id b = booking_id
                             then b\<lparr>b_status := CONFIRMED,
                                    b_payment_reference := Some (e_payment_ref env)\<rparr>
                             else b) (bookings conn4)\<rparr>"
  using assms unfolding checkout_transaction_def Let_def
  by (auto split: sum.splits prod.splits if_splits)

lemma checkout_validate_Inr:
  "checkout_validate conn req now = Inr flight \<Longrightarrow>
     get_flight conn (r_flight_id req) = Some flight \<and> f_status flight = SCHEDULED
     \<and> sqlite_integer (r_flight_id req)
     \<and> \<not> f_departure_time flight < now
     \<and> \<not> f_seats_remaining flight < int (length (r_passengers req))"
  by (auto simp: checkout_validate_def get_flight_def split: option.splits if_splits)

lemma checkout_validate_errors:
  "checkout_validate conn req now = Inl e \<Longrightarrow>
     e = NotFoundError \<or> e = InvalidStateError \<or> e = CapacityError
     \<or> (e = OverflowError \<and> \<not> sqlite_integer (r_flight_id req))"
  by (auto simp: checkout_validate_def split: option.splits if_splits)

lemma checkout_Inr:
  "checkout stored req env = (Inr r, conn') \<Longrightarrow>
     checkout_transaction stored req env = Inr (r, conn')"
  by (auto simp: checkout_def split: sum.splits prod.splits)

lemma payment_declined_transaction:
  assumes "\<not> e_payment_success env"
  shows "\<exists>e. checkout_transaction conn req env = Inl e"
    and "checkout_transaction conn req (env\<lparr>e_payment_success := True\<rparr>) = Inr x \<Longrightarrow>
           checkout_transaction conn req env = Inl PaymentDeclinedError"
  using assms unfolding checkout_transaction_def Let_def insert_payment_def
  by (auto split: sum.splits prod.splits if_splits)


text \<open>
  Claim C1. When the payment is declined the attempt ends in an error and the stored
  database is the one before the attempt: no booking, no passenger row and no payment row
  of the attempt remains, and the flight row (with \<open>seats_remaining\<close> and
  \<open>demand_factor\<close>) is as before. The error is \<open>PaymentDeclinedError\<close> whenever the
  attempt gets as far as the payment, that is, whenever the same attempt with an accepted
  payment is confirmed.
\<close>

theorem payment_decline_atomic:
  assumes "\<not> e_payment_success env"
  shows "snd (checkout stored req env) = stored
       \<and> (\<exists>e. fst (checkout stored req env) = Inl e)
       \<and> bookings (snd (checkout stored req env)) = bookings stored
       \<and> passengers (snd (checkout stored req env)) = passengers stored
       \<and> payments (snd (checkout stored req env)) = payments stored
       \<and> get_flight (snd (checkout stored req env)) (r_flight_id req)
           = get_flight stored (r_flight_id req)
       \<and> (\<forall>r conn'. checkout stored req (env\<lparr>e_payment_success := True\<rparr>) = (Inr r, conn')
            \<longrightarrow> checkout stored req env = (Inl PaymentDeclinedError, stored))"
proof -
  from payment_declined_transaction(1) [OF assms] obtain e where
    e: "checkout_transaction stored req env = Inl e" by blast
  then have c: "checkout stored req env = (Inl (as_http_exception e), stored)"
    by (simp add: checkout_def)
  have "checkout stored req env = (Inl PaymentDeclinedError, stored)"
    if "checkout stored req (env\<lparr>e_payment_success := True\<rparr>) = (Inr r, conn')" for r conn'
  proof -
    from that have "checkout_transaction stored req (env\<lparr>e_payment_success := True\<rparr>)
        = Inr (r, conn')" by (rule checkout_Inr)
    then have "checkout_transaction stored req env = Inl PaymentDeclinedError"
      by (rule payment_declined_transaction(2) [OF assms])
    then show ?thesis by (simp add: checkout_def)
  qed
  with c show ?thesis by simp
qed

lemma example_checkout_confirmed:
  "checkout example_db example_request example_env =
     (Inr \<lparr>conf_pnr = ''PNR0A1B2C3D'', conf_booking_id = 1,
           conf_payment_reference = ''PAY_0011223344556677'', conf_price_paid = 115\<rparr>,
      example_db\<lparr>
        flights := [example_flight\<lparr>f_seats_remaining := 2, f_demand_factor := 12 / 10\<rparr>],
        bookings := [\<lparr>b_id = 1, b_user_id = 7, b_flight_id = 1, b_pnr = ''PNR0A1B2C3D'',
                      b_price_paid = 115, b_booking_date = ''2026-01-01 10:00:00'',
                      b_status = CONFIRMED,
                      b_payment_reference = Some ''PAY_0011223344556677'',
                      b_cancellation_date = None, b_refund_amount = None\<rparr>],
        passengers := [\<lparr>p_booking_id = 1, p_flight_id = 1, p_seat_number = ''12A'',
                        p_seat_type = WINDOW, p_full_name = ''Ada Lovelace'',
                        p_passenger_type = ADULT\<rparr>],
        flight_price_history := [\<lparr>h_flight_id = 1, h_recorded_price = 150,
                                  h_demand_factor = 12 / 10, h_seats_remaining = 2\<rparr>],
        payments := [\<lparr>pay_booking_id = 1, pay_reference = ''PAY_0011223344556677'',
                      pay_method = CARD, pay_amount_paid = 115,
                      pay_status = PAY_SUCCESS\<rparr>]\<rparr>)"
  by code_simp

text \<open>The example attempt with the payment declined: error 402, database untouched.\<close>

theorem payment_decline_atomic_witness:
  "\<not> e_payment_success (example_env\<lparr>e_payment_success := False\<rparr>)
   \<and> checkout example_db example_request (example_env\<lparr>e_payment_success := False\<rparr>)
       = (Inl PaymentDeclinedError, example_db)
   \<and> http_status PaymentDeclinedError = Some 402"
proof -
  have h: "\<not> e_payment_success (example_env\<lparr>e_payment_success := False\<rparr>)" by simp
  have u: "example_env\<lparr>e_payment_success := False, e_payment_success := True\<rparr> = example_env"
    by (simp add: example_env_def)
  from payment_decline_atomic [OF h, of example_db example_request]
  have "\<forall>r conn'. checkout example_db example_request example_env = (Inr r, conn')
          \<longrightarrow> checkout example_db example_request (example_env\<lparr>e_payment_success := False\<rparr>)
                = (Inl PaymentDeclinedError, example_db)"
    unfolding u by blast
  with example_checkout_confirmed h show ?thesis by simp
qed

text \<open>
  Claim C6 as stated rejects a flight whose departure time equals the current time, and
  answers every unknown flight id with \<open>NotFoundError\<close>. The code compares
  \<^verbatim>\<open>departure_dt < datetime.now()\<close> (line 1042): the example flight departs at hour 80, and
  an attempt made exactly then passes validation and is confirmed. A flight id of
  \<open>2 ^ 63\<close>, which no flight has, cannot be bound to the query: the attempt ends in the
  handler of line 1132 with status 500.
\<close>

theorem checkout_validation_counterexample:
  "f_departure_time example_flight \<le> hours 80
   \<and> checkout_validate example_db example_request (hours 80) = Inr example_flight
   \<and> \<not> isl (fst (checkout example_db example_request (example_env\<lparr>e_now_check := hours 80\<rparr>)))
   \<and> get_flight example_db (2 ^ 63) = None
   \<and> checkout example_db (example_request\<lparr>r_flight_id := 2 ^ 63\<rparr>) example_env
       = (Inl FatalError, example_db)"
  by code_simp

text \<open>
  Claim C6, amended: for a request whose flight id is a 64-bit integer, validation fails
  with \<open>NotFoundError\<close> when the flight does not exist, with \<open>InvalidStateError\<close> when its
  status is not SCHEDULED or its departure time is strictly before the current time (a
  flight departing exactly now is not rejected), and with \<open>CapacityError\<close> when there are
  more passengers than seats remaining; otherwise it passes. A validation error is the
  result of the checkout, which then stores nothing. A flight id outside the 64-bit range
  raises \<open>OverflowError\<close> before any lookup, and the checkout answers 500.
\<close>

theorem checkout_validation:
  "(sqlite_integer (r_flight_id req) \<longrightarrow>
      (get_flight conn (r_flight_id req) = None \<longrightarrow>
         checkout_validate conn req now = Inl NotFoundError)
      \<and> (\<forall>f. get_flight conn (r_flight_id req) = Some f \<longrightarrow>
           (f_status f \<noteq> SCHEDULED \<or> f_departure_time f < now \<longrightarrow>
              checkout_validate conn req now = Inl InvalidStateError)
           \<and> (f_status f = SCHEDULED \<and> now \<le> f_departure_time f
                \<and> f_seats_remaining f < int (length (r_passengers req)) \<longrightarrow>
              checkout_validate conn req now = Inl CapacityError)
           \<and> (f_status f = SCHEDULED \<and> now \<le> f_departure_time f
                \<and> int (length (r_passengers req)) \<le> f_seats_remaining f \<longrightarrow>
              checkout_validate conn req now = Inr f))
      \<and> (\<forall>e. checkout_validate conn req (e_now_check env) = Inl e \<longrightarrow>
           checkout conn req env = (Inl e, conn)))
   \<and> (\<not> sqlite_integer (r_flight_id req) \<longrightarrow>
        checkout_validate conn req now = Inl OverflowError
        \<and> checkout conn req env = (Inl FatalError, conn))"
proof (intro conjI allI impI)
  fix e
  assume i: "sqlite_integer (r_flight_id req)"
    and v: "checkout_validate conn req (e_now_check env) = Inl e"
  then have "as_http_exception e = e"
    using checkout_validate_errors [OF v] by auto
  with v show "checkout conn req env = (Inl e, conn)"
    by (simp add: checkout_def checkout_transaction_def)
next
  assume "\<not> sqlite_integer (r_flight_id req)"
  then show "checkout conn req env = (Inl FatalError, conn)"
    by (simp add: checkout_def checkout_transaction_def checkout_validate_def)
qed (auto simp: checkout_validate_def get_flight_def)

text \<open>
  The outcomes on the example: an unknown flight, an attempt one microsecond after
  departure, two passengers more than the three seats, the request as it is, and a flight
  id of \<open>2 ^ 63\<close>.
\<close>

theorem checkout_validation_witness:
  "sqlite_integer 2 \<and> get_flight example_db 2 = None
   \<and> checkout_validate example_db (example_request\<lparr>r_flight_id := 2\<rparr>) 0 = Inl NotFoundError
   \<and> sqlite_integer 1 \<and> get_flight example_db 1 = Some example_flight
   \<and> f_departure_time example_flight < hours 80 + 1
   \<and> checkout_validate example_db example_request (hours 80 + 1) = Inl InvalidStateError
   \<and> checkout_validate example_db
        (example_request\<lparr>r_passengers := replicate 5 (hd (r_passengers example_request))\<rparr>) 0
        = Inl CapacityError
   \<and> checkout_validate example_db example_request 0 = Inr example_flight
   \<and> \<not> sqlite_integer (2 ^ 63)
   \<and> checkout example_db (example_request\<lparr>r_flight_id := 2 ^ 63\<rparr>) example_env
       = (Inl FatalError, example_db)"
proof -
  have i2: "sqlite_integer (r_flight_id (example_request\<lparr>r_flight_id := 2\<rparr>))"
    and i1: "sqlite_integer (r_flight_id example_request)"
    and big: "\<not> sqlite_integer (r_flight_id (example_request\<lparr>r_flight_id := 2 ^ 63\<rparr>))"
    by (simp_all add: sqlite_integer_def example_request_def)
  have g2: "get_flight example_db (r_flight_id (example_request\<lparr>r_flight_id := 2\<rparr>)) = None"
    by (simp add: get_flight_def example_db_def example_flight_def)
  have g1: "get_flight example_db (r_flight_id example_request) = Some example_flight"
    by (simp add: get_flight_def example_db_def example_flight_def example_request_def)
  let ?many = "example_request\<lparr>r_passengers := replicate 5 (hd (r_passengers example_request))\<rparr>"
  have i1': "sqlite_integer (r_flight_id ?many)" using i1 by simp
  have g1': "get_flight example_db (r_flight_id ?many) = Some example_flight"
    using g1 by simp
  have late: "f_departure_time example_flight < hours 80 + 1"
    by (simp add: example_flight_def)
  have many: "f_status example_flight = SCHEDULED \<and> 0 \<le> f_departure_time example_flight
      \<and> f_seats_remaining example_flight < int (length (r_passengers ?many))"
    by (simp add: example_flight_def hours_def)
  have ok: "f_status example_flight = SCHEDULED \<and> 0 \<le> f_departure_time example_flight
      \<and> int (length (r_passengers example_request)) \<le> f_seats_remaining example_flight"
    by (simp add: example_flight_def example_request_def hours_def)
  have "checkout_validate example_db (example_request\<lparr>r_flight_id := 2\<rparr>) 0 = Inl NotFoundError"
    using checkout_validation [of "example_request\<lparr>r_flight_id := 2\<rparr>" example_db 0] i2 g2
    by blast
  moreover have "checkout_validate example_db example_request (hours 80 + 1)
      = Inl InvalidStateError"
    using checkout_validation [of example_request example_db "hours 80 + 1"] i1 g1 late
    by blast
  moreover have "checkout_validate example_db ?many 0 = Inl CapacityError"
    using checkout_validation [of ?many example_db 0] i1' g1' many by blast
  moreover have "checkout_validate example_db example_request 0 = Inr example_flight"
    using checkout_validation [of example_request example_db 0] i1 g1 ok by blast
  moreover have "checkout example_db (example_request\<lparr>r_flight_id := 2 ^ 63\<rparr>) example_env
       = (Inl FatalError, example_db)"
    using checkout_validation [of "example_request\<lparr>r_flight_id := 2 ^ 63\<rparr>" example_db
        0 example_env] big
    by blast
  ultimately show ?thesis
    using g2 g1 late i2 i1 big by (simp add: example_request_def)
qed

lemma insert_booking_Inr:
  assumes "insert_booking conn req pnr total_price ts = Inr (booking_id, conn1)"
  shows "booking_id = next_booking_id conn
       \<and> flights conn1 = flights conn
       \<and> bookings conn1 = bookings conn @
            [\<lparr>b_id = booking_id, b_user_id = r_user_id req, b_flight_id = r_flight_id req,
              b_pnr = pnr, b_price_paid = total_price, b_booking_date = ts, b_status = PENDING,
              b_payment_reference = None, b_cancellation_date = None,
              b_refund_amount = None\<rparr>]"
  using assms by (auto simp: insert_booking_def Let_def split: if_splits)

lemma insert_payment_frame:
  "insert_payment conn booking_id ref m total_price st = Inr conn' \<Longrightarrow>
     bookings conn' = bookings conn \<and> flights conn' = flights conn
     \<and> passengers conn' = passengers conn"
  by (auto simp: insert_payment_def split: if_splits)

lemma find_map_confirm:
  assumes "find (\<lambda>b. b_id b = i) xs = Some b" and "\<And>x. b_id (g x) = b_id x"
  shows "find (\<lambda>b. b_id b = i) (map (\<lambda>b. if b_id b = i then g b else b) xs) = Some (g b)"
  using assms by (induction xs) (auto split: if_splits)

text \<open>
  Claim C7. In every checkout that commits, the price per passenger is the value of the
  pricing function on the flight row as it is stored before the attempt (its
  \<open>seats_remaining\<close> and \<open>demand_factor\<close> before the decrement), and the \<open>price_paid\<close>
  of the confirmed booking, which is also the price of the response, is the rounding to
  two decimals (line 1057) of that price times the number of passengers: a whole number of
  cents at most half a cent from the product. The flight row stored afterwards holds the
  decremented counter.
\<close>

theorem checkout_price_pre_decrement:
  assumes "checkout stored req env = (Inr r, conn')"
  shows "\<exists>flight p b flight'.
       get_flight stored (r_flight_id req) = Some flight
     \<and> calculate_dynamic_price (f_base_price flight) (f_seats_remaining flight)
          (f_total_seats flight) (f_demand_factor flight) (f_departure_time flight)
          (e_price_reading env) = Inr p
     \<and> conf_price_paid r = e_round_total env (p * of_nat (length (r_passengers req)))
     \<and> find (\<lambda>b. b_id b = conf_booking_id r) (bookings conn') = Some b
     \<and> b_status b = CONFIRMED
     \<and> b_pnr b = conf_pnr r
     \<and> b_price_paid b = e_round_total env (p * of_nat (length (r_passengers req)))
     \<and> (rounds_to_cents (e_round_total env) \<longrightarrow>
          is_cents (b_price_paid b)
          \<and> \<bar>b_price_paid b - p * of_nat (length (r_passengers req))\<bar> \<le> 1 / 200)
     \<and> get_flight conn' (r_flight_id req) = Some flight'
     \<and> f_seats_remaining flight' =
         min (f_seats_remaining flight - int (length (r_passengers req))) (f_total_seats flight)"
proof -
  let ?n = "length (r_passengers req)"
  from checkout_transaction_Inr [OF checkout_Inr [OF assms]]
  obtain flight p booking_id conn1 conn2 conn3 conn4 where
    v: "checkout_validate stored req (e_now_check env) = Inr flight"
    and p: "calculate_dynamic_price (f_base_price flight) (f_seats_remaining flight)
          (f_total_seats flight) (f_demand_factor flight) (f_departure_time flight)
          (e_price_reading env) = Inr p"
    and ib: "insert_booking stored req (e_pnr env) (e_round_total env (p * of_nat ?n))
          (e_current_timestamp env) = Inr (booking_id, conn1)"
    and ip: "insert_passengers conn1 booking_id (r_flight_id req) (r_passengers req) = Inr conn2"
    and ui: "update_flight_inventory conn2 (r_flight_id req) (- int ?n) (e_history_reading env)
          = Inr conn3"
    and pay: "insert_payment conn3 booking_id (e_payment_ref env) (r_payment_method req)
          (e_round_total env (p * of_nat ?n)) PAY_SUCCESS = Inr conn4"
    and r: "r = \<lparr>conf_pnr = e_pnr env, conf_booking_id = booking_id,
             conf_payment_reference = e_payment_ref env,
             conf_price_paid = e_round_total env (p * of_nat ?n)\<rparr>"
    and c: "conn' = conn4\<lparr>bookings :=
                   map (\<lambda>b. if b_id b = booking_id
                             then b\<lparr>b_status := CONFIRMED,
                                    b_payment_reference := Some (e_payment_ref env)\<rparr>
                             else b) (bookings conn4)\<rparr>"
    by blast
  let ?new = "\<lparr>b_id = booking_id, b_user_id = r_user_id req, b_flight_id = r_flight_id req,
              b_pnr = e_pnr env, b_price_paid = e_round_total env (p * of_nat ?n),
              b_booking_date = e_current_timestamp env, b_status = PENDING,
              b_payment_reference = None, b_cancellation_date = None,
              b_refund_amount = None\<rparr>"
  let ?g = "\<lambda>b. b\<lparr>b_status := CONFIRMED, b_payment_reference := Some (e_payment_ref env)\<rparr>"
  have gf: "get_flight stored (r_flight_id req) = Some flight"
    using checkout_validate_Inr [OF v] by simp
  from insert_booking_Inr [OF ib] have
    bid: "booking_id = next_booking_id stored"
    and f1: "flights conn1 = flights stored"
    and b1: "bookings conn1 = bookings stored @ [?new]" by simp_all
  have b4: "bookings conn4 = bookings stored @ [?new]"
    using b1 insert_passengers_frame [OF ip] update_flight_inventory_frame [OF ui]
      insert_payment_frame [OF pay] by simp
  have "find (\<lambda>b. b_id b = booking_id) (bookings stored @ [?new]) = Some ?new"
  proof (rule find_fresh_append)
    fix x assume "x \<in> set (bookings stored)"
    then show "\<not> b_id x = booking_id"
      using next_booking_id_fresh [of x stored] bid by simp
  qed simp
  then have "find (\<lambda>b. b_id b = booking_id)
      (map (\<lambda>b. if b_id b = booking_id then ?g b else b) (bookings stored @ [?new]))
      = Some (?g ?new)"
    by (rule find_map_confirm) simp
  then have fb: "find (\<lambda>b. b_id b = conf_booking_id r) (bookings conn') = Some (?g ?new)"
    using b4 c r by simp
  have "get_flight conn2 (r_flight_id req) = Some flight"
    using gf f1 insert_passengers_frame [OF ip] by (simp add: get_flight_def)
  from update_flight_inventory_Inr [OF this ui] obtain flight' where
    g3: "get_flight conn3 (r_flight_id req) = Some flight'"
    and s3: "f_seats_remaining flight' =
        min (f_seats_remaining flight + - int ?n) (f_total_seats flight)"
    by blast
  have "get_flight conn' (r_flight_id req) = Some flight'"
    using g3 insert_payment_frame [OF pay] c by (simp add: get_flight_def)
  with gf p fb s3 r show ?thesis
    by (intro exI [of _ flight] exI [of _ p] exI [of _ "?g ?new"] exI [of _ flight'])
       (simp add: rounds_to_cents_def)
qed

text \<open>
  On the example the booking costs 115.00, the price at 3 of 10 seats with demand factor 1;
  the price at the state after the reservation (2 of 10 seats, demand factor 1.2) is 150.00.
  Two seats on the flight with the base price 50.10, with the tie of the price resolved
  upwards to 52.61, cost 105.22.
\<close>

theorem checkout_price_pre_decrement_witness:
  "fst (checkout example_db example_request example_env) =
     Inr \<lparr>conf_pnr = ''PNR0A1B2C3D'', conf_booking_id = 1,
          conf_payment_reference = ''PAY_0011223344556677'', conf_price_paid = 115\<rparr>
   \<and> calculate_dynamic_price 100 3 10 1 (hours 80) (reading_at 0) = Inr 115
   \<and> calculate_dynamic_price 100 2 10 (12 / 10) (hours 80) (reading_at 0) = Inr 150
   \<and> (\<exists>b. find (\<lambda>b. b_id b = 1) (bookings (snd (checkout example_db example_request example_env)))
            = Some b \<and> b_status b = CONFIRMED \<and> b_price_paid b = round_cents odd (115 * 1))
   \<and> fst (checkout example_tie_db example_tie_request example_tie_env) =
     Inr \<lparr>conf_pnr = ''PNR0A1B2C3D'', conf_booking_id = 1,
          conf_payment_reference = ''PAY_0011223344556677'', conf_price_paid = 10522 / 100\<rparr>
   \<and> calculate_dynamic_price (501 / 10) 10 10 1 (hours 80) (ties_up 0) = Inr (5261 / 100)
   \<and> rounds_to_cents (e_round_total example_tie_env)
   \<and> (\<exists>b. find (\<lambda>b. b_id b = 1)
              (bookings (snd (checkout example_tie_db example_tie_request example_tie_env)))
            = Some b \<and> b_status b = CONFIRMED \<and> is_cents (b_price_paid b)
          \<and> \<bar>b_price_paid b - 5261 / 100 * 2\<bar> \<le> 1 / 200)"
proof -
  have p: "calculate_dynamic_price 100 3 10 1 (hours 80) (reading_at 0) = Inr 115" by code_simp
  have q: "calculate_dynamic_price 100 2 10 (12 / 10) (hours 80) (reading_at 0) = Inr 150"
    by code_simp
  have g: "get_flight example_db (r_flight_id example_request) = Some example_flight"
    by (simp add: get_flight_def example_db_def example_flight_def example_request_def)
  have n: "length (r_passengers example_request) = 1" by (simp add: example_request_def)
  from checkout_price_pre_decrement [OF example_checkout_confirmed]
  obtain flight pp b where
    "get_flight example_db (r_flight_id example_request) = Some flight"
    "calculate_dynamic_price (f_base_price flight) (f_seats_remaining flight)
          (f_total_seats flight) (f_demand_factor flight) (f_departure_time flight)
          (e_price_reading example_env) = Inr pp"
    "find (\<lambda>b. b_id b = 1) (bookings (snd (checkout example_db example_request example_env)))
       = Some b"
    "b_status b = CONFIRMED"
    "b_price_paid b
       = e_round_total example_env (pp * of_nat (length (r_passengers example_request)))"
    unfolding example_checkout_confirmed by auto
  moreover from this(1,2) g p have "pp = 115"
    by (auto simp: example_flight_def example_env_def)
  ultimately have first: "\<exists>b. find (\<lambda>b. b_id b = 1)
        (bookings (snd (checkout example_db example_request example_env)))
            = Some b \<and> b_status b = CONFIRMED \<and> b_price_paid b = round_cents odd (115 * 1)"
    using n by (auto simp: example_env_def)
  let ?tie = "checkout example_tie_db example_tie_request example_tie_env"
  have t: "fst ?tie =
     Inr \<lparr>conf_pnr = ''PNR0A1B2C3D'', conf_booking_id = 1,
          conf_payment_reference = ''PAY_0011223344556677'', conf_price_paid = 10522 / 100\<rparr>"
    by code_simp
  then have t': "?tie =
     (Inr \<lparr>conf_pnr = ''PNR0A1B2C3D'', conf_booking_id = 1,
          conf_payment_reference = ''PAY_0011223344556677'', conf_price_paid = 10522 / 100\<rparr>,
      snd ?tie)"
    by (metis prod.collapse)
  have u: "calculate_dynamic_price (501 / 10) 10 10 1 (hours 80) (ties_up 0) = Inr (5261 / 100)"
    by code_simp
  have v: "rounds_to_cents (e_round_total example_tie_env)"
    by (simp add: example_tie_env_def example_env_def round_cents_rounds)
  have gt: "get_flight example_tie_db (r_flight_id example_tie_request) = Some example_tie_flight"
    by (simp add: get_flight_def example_tie_db_def example_tie_flight_def
        example_tie_request_def example_request_def)
  have nt: "length (r_passengers example_tie_request) = 2"
    by (simp add: example_tie_request_def)
  from checkout_price_pre_decrement [OF t']
  obtain flight2 p2 b2 where
    "get_flight example_tie_db (r_flight_id example_tie_request) = Some flight2"
    "calculate_dynamic_price (f_base_price flight2) (f_seats_remaining flight2)
          (f_total_seats flight2) (f_demand_factor flight2) (f_departure_time flight2)
          (e_price_reading example_tie_env) = Inr p2"
    "find (\<lambda>b. b_id b = 1) (bookings (snd ?tie)) = Some b2"
    "b_status b2 = CONFIRMED"
    "rounds_to_cents (e_round_total example_tie_env) \<longrightarrow>
          is_cents (b_price_paid b2)
          \<and> \<bar>b_price_paid b2 - p2 * of_nat (length (r_passengers example_tie_request))\<bar>
              \<le> 1 / 200"
    by auto
  moreover from this(1,2) gt u have "p2 = 5261 / 100"
    by (auto simp: example_tie_flight_def example_tie_env_def)
  ultimately have second: "\<exists>b. find (\<lambda>b. b_id b = 1) (bookings (snd ?tie))
            = Some b \<and> b_status b = CONFIRMED \<and> is_cents (b_price_paid b)
          \<and> \<bar>b_price_paid b - 5261 / 100 * 2\<bar> \<le> 1 / 200"
    using v nt by auto
  from p q first t u v second show ?thesis
    by (simp add: example_checkout_confirmed)
qed

section \<open>Properties of cancellation\<close>

lemma calculate_refund_eq:
  "calculate_refund price_paid departure_time rd =
     (rd_round2 rd (price_paid * spec_refund_pct (hours_until departure_time (rd_now rd))),
      spec_refund_policy (hours_until departure_time (rd_now rd)))"
  by (simp add: calculate_refund_def spec_refund_pct_def spec_refund_policy_def Let_def)

text \<open>The steps of a cancellation that commits.\<close>

lemma cancel_transaction_Inr:
  assumes "cancel_transaction conn pnr reason usr refund_reading ts history_reading = Inr (rc, conn')"
  shows "\<exists>booking flight.
       find (\<lambda>b. b_pnr b = pnr) (bookings conn) = Some booking
     \<and> get_flight conn (b_flight_id booking) = Some flight
     \<and> (u_role usr = ADMIN \<or> b_user_id booking = u_id usr)
     \<and> b_status booking = CONFIRMED
     \<and> rc = \<lparr>rc_price_paid = b_price_paid booking,
              rc_refund_amount =
                rd_round2 refund_reading
                  (b_price_paid booking *
                   spec_refund_pct (hours_until (f_departure_time flight) (rd_now refund_reading))),
              rc_policy =
                spec_refund_policy (hours_until (f_departure_time flight) (rd_now refund_reading))\<rparr>
     \<and> update_flight_inventory
          (conn\<lparr>cancelled_bookings := cancelled_bookings conn @
                   [\<lparr>c_pnr = pnr, c_user_id = b_user_id booking,
                     c_flight_id = b_flight_id booking, c_price_paid = b_price_paid booking,
                     c_refund_amount =
                       rd_round2 refund_reading
                  (b_price_paid booking *
                   spec_refund_pct (hours_until (f_departure_time flight) (rd_now refund_reading))),
                     c_reason = reason\<rparr>],
                 bookings :=
                   map (\<lambda>b. if b_id b = b_id booking
                             then b\<lparr>b_status := CANCELLED,
                                    b_cancellation_date := Some ts,
                                    b_refund_amount :=
                                      Some (rd_round2 refund_reading
                  (b_price_paid booking *
                   spec_refund_pct (hours_until (f_departure_time flight) (rd_now refund_reading))))\<rparr>
                             else b) (bookings conn),
                 payments :=
                   map (\<lambda>p. if pay_booking_id p = b_id booking
                             then p\<lparr>pay_status := PAY_REFUNDED\<rparr>
                             else p) (payments conn)\<rparr>)
          (b_flight_id booking)
          (int (length (filter (\<lambda>p. p_booking_id p = b_id booking) (passengers conn))))
          history_reading = Inr conn'"
  using assms unfolding cancel_transaction_def get_flight_def Let_def calculate_refund_eq
  by (auto split: option.splits if_splits sum.splits)

lemma cancel_booking_Inr:
  "cancel_booking stored pnr reason usr refund_reading ts history_reading = (Inr rc, conn') \<Longrightarrow>
     cancel_transaction stored pnr reason usr refund_reading ts history_reading = Inr (rc, conn')"
  by (auto simp: cancel_booking_def split: sum.splits prod.splits)

lemma find_map_by_id:
  assumes "find P xs = Some b" and "\<And>x. P (g x) = P x" and "\<And>x. P (h x) = P x"
  shows "find P (map (\<lambda>x. if Q x then g x else h x) xs) = Some (if Q b then g b else h b)"
  using assms by (induction xs) (auto split: if_splits)

text \<open>
  Claim C5. In every cancellation of a CONFIRMED booking that commits, the refund is
  \<open>price_paid\<close> times the share given by the hours until departure (above 72: 0.90,
  above 48: 0.80, above 24: 0.60, above 6: 0.40, above 0: 0.20, otherwise 0), rounded to
  two decimals: a whole number of cents at most half a cent from that product. The receipt
  carries it with the tier's policy label and the booking row stores it with status
  CANCELLED. A price of 200 cancelled exactly 50 hours before departure refunds 160.00.
\<close>

theorem cancellation_refund:
  assumes "cancel_booking stored pnr reason usr refund_reading ts history_reading = (Inr rc, conn')"
  shows "\<exists>booking flight booking'.
       find (\<lambda>b. b_pnr b = pnr) (bookings stored) = Some booking
     \<and> b_status booking = CONFIRMED
     \<and> get_flight stored (b_flight_id booking) = Some flight
     \<and> rc_refund_amount rc =
         rd_round2 refund_reading (b_price_paid booking *
           spec_refund_pct (hours_until (f_departure_time flight) (rd_now refund_reading)))
     \<and> rc_policy rc =
         spec_refund_policy (hours_until (f_departure_time flight) (rd_now refund_reading))
     \<and> rc_price_paid rc = b_price_paid booking
     \<and> find (\<lambda>b. b_pnr b = pnr) (bookings conn') = Some booking'
     \<and> b_status booking' = CANCELLED
     \<and> b_refund_amount booking' = Some (rc_refund_amount rc)
     \<and> (rounds_to_cents (rd_round2 refund_reading) \<longrightarrow>
          is_cents (rc_refund_amount rc)
          \<and> \<bar>rc_refund_amount rc - b_price_paid booking *
               spec_refund_pct (hours_until (f_departure_time flight) (rd_now refund_reading))\<bar>
              \<le> 1 / 200
          \<and> calculate_refund 200 (hours 50) (refund_reading\<lparr>rd_now := 0\<rparr>)
              = (160, ''48-72 hours before departure''))"
proof -
  from cancel_transaction_Inr [OF cancel_booking_Inr [OF assms]]
  obtain booking flight where
    fb: "find (\<lambda>b. b_pnr b = pnr) (bookings stored) = Some booking"
    and gf: "get_flight stored (b_flight_id booking) = Some flight"
    and st: "b_status booking = CONFIRMED"
    and rc: "rc = \<lparr>rc_price_paid = b_price_paid booking,
              rc_refund_amount =
                rd_round2 refund_reading
                  (b_price_paid booking *
                   spec_refund_pct (hours_until (f_departure_time flight) (rd_now refund_reading))),
              rc_policy =
                spec_refund_policy (hours_until (f_departure_time flight) (rd_now refund_reading))\<rparr>"
    and ui: "update_flight_inventory
          (stored\<lparr>cancelled_bookings := cancelled_bookings stored @
                   [\<lparr>c_pnr = pnr, c_user_id = b_user_id booking,
                     c_flight_id = b_flight_id booking, c_price_paid = b_price_paid booking,
                     c_refund_amount =
                       rd_round2 refund_reading
                  (b_price_paid booking *
                   spec_refund_pct (hours_until (f_departure_time flight) (rd_now refund_reading))),
                     c_reason = reason\<rparr>],
                 bookings :=
                   map (\<lambda>b. if b_id b = b_id booking
                             then b\<lparr>b_status := CANCELLED,
                                    b_cancellation_date := Some ts,
                                    b_refund_amount :=
                                      Some (rd_round2 refund_reading
                  (b_price_paid booking *
                   spec_refund_pct (hours_until (f_departure_time flight) (rd_now refund_reading))))\<rparr>
                             else b) (bookings stored),
                 payments :=
                   map (\<lambda>p. if pay_booking_id p = b_id booking
                             then p\<lparr>pay_status := PAY_REFUNDED\<rparr>
                             else p) (payments stored)\<rparr>)
          (b_flight_id booking)
          (int (length (filter (\<lambda>p. p_booking_id p = b_id booking) (passengers stored))))
          history_reading = Inr conn'"
    by blast
  let ?ra = "rd_round2 refund_reading
                  (b_price_paid booking *
                   spec_refund_pct (hours_until (f_departure_time flight) (rd_now refund_reading)))"
  let ?g = "\<lambda>b. b\<lparr>b_status := CANCELLED, b_cancellation_date := Some ts,
                    b_refund_amount := Some ?ra\<rparr>"
  have bk: "bookings conn' =
      map (\<lambda>b. if b_id b = b_id booking then ?g b else b) (bookings stored)"
    using update_flight_inventory_frame [OF ui] by simp
  have "find (\<lambda>b. b_pnr b = pnr)
      (map (\<lambda>b. if b_id b = b_id booking then ?g b else b) (bookings stored))
      = Some (if b_id booking = b_id booking then ?g booking else booking)"
    using fb by (rule find_map_by_id) simp_all
  then have fb': "find (\<lambda>b. b_pnr b = pnr) (bookings conn') = Some (?g booking)"
    by (simp add: bk)
  have ex: "calculate_refund 200 (hours 50) (refund_reading\<lparr>rd_now := 0\<rparr>)
      = (160, ''48-72 hours before departure'')"
    if r: "rounds_to_cents (rd_round2 refund_reading)"
  proof -
    have "calculate_refund 200 (hours 50) (refund_reading\<lparr>rd_now := 0\<rparr>)
        = (rd_round2 refund_reading 160, ''48-72 hours before departure'')"
      by (simp add: calculate_refund_eq spec_refund_pct_def spec_refund_policy_def
          hours_until_def hours_def)
    moreover have "rd_round2 refund_reading 160 = 160"
      using r by (rule rounds_to_cents_fixes) (simp add: is_cents_def)
    ultimately show ?thesis by simp
  qed
  show ?thesis
    using fb st gf rc fb' ex
    by (intro exI [of _ booking] exI [of _ flight] exI [of _ "?g booking"])
       (simp add: rounds_to_cents_def)
qed


text \<open>
  The example booking of 115.00, cancelled 80 hours before departure, refunds 103.50. A
  booking of 50.05 has the exact refund 45.045: with the tie resolved upwards the receipt
  and the booking row hold 45.05, with the tie resolved downwards 45.04.
\<close>

theorem cancellation_refund_witness:
  "cancel_booking example_booked_db ''PNR0A1B2C3D'' ''User requested'' example_user
       (reading_at 0) ''2026-01-02 09:00:00'' (reading_at 0)
     = (Inr \<lparr>rc_price_paid = 115, rc_refund_amount = 207 / 2,
              rc_policy = ''More than 72 hours before departure''\<rparr>, example_cancelled_db)
   \<and> (\<exists>b. find (\<lambda>b. b_pnr b = ''PNR0A1B2C3D'') (bookings example_cancelled_db) = Some b
          \<and> b_status b = CANCELLED \<and> b_refund_amount b = Some (207 / 2))
   \<and> rounds_to_cents (rd_round2 (ties_up 0))
   \<and> fst (cancel_booking example_refund_db ''PNR0A1B2C3D'' ''User requested'' example_user
            (ties_up 0) ''2026-01-02 09:00:00'' (reading_at 0))
       = Inr \<lparr>rc_price_paid = 5005 / 100, rc_refund_amount = 4505 / 100,
              rc_policy = ''More than 72 hours before departure''\<rparr>
   \<and> fst (cancel_booking example_refund_db ''PNR0A1B2C3D'' ''User requested'' example_user
            (ties_down 0) ''2026-01-02 09:00:00'' (reading_at 0))
       = Inr \<lparr>rc_price_paid = 5005 / 100, rc_refund_amount = 4504 / 100,
              rc_policy = ''More than 72 hours before departure''\<rparr>
   \<and> (\<exists>b. find (\<lambda>b. b_pnr b = ''PNR0A1B2C3D'')
              (bookings (snd (cancel_booking example_refund_db ''PNR0A1B2C3D''
                 ''User requested'' example_user (ties_up 0) ''2026-01-02 09:00:00''
                 (reading_at 0)))) = Some b
          \<and> b_status b = CANCELLED \<and> b_refund_amount b = Some (4505 / 100))
   \<and> is_cents (4505 / 100) \<and> \<bar>4505 / 100 - 5005 / 100 * spec_refund_pct 80\<bar> \<le> (1 / 200 :: rat)
   \<and> calculate_refund 200 (hours 50) (ties_up 0) = (160, ''48-72 hours before departure'')"
proof -
  have c: "cancel_booking example_booked_db ''PNR0A1B2C3D'' ''User requested'' example_user
       (reading_at 0) ''2026-01-02 09:00:00'' (reading_at 0)
     = (Inr \<lparr>rc_price_paid = 115, rc_refund_amount = 207 / 2,
              rc_policy = ''More than 72 hours before departure''\<rparr>, example_cancelled_db)"
    by code_simp
  from cancellation_refund [OF c] obtain b where
    "find (\<lambda>b. b_pnr b = ''PNR0A1B2C3D'') (bookings example_cancelled_db) = Some b"
    "b_status b = CANCELLED" "b_refund_amount b = Some (207 / 2)"
    by auto
  then have first: "\<exists>b. find (\<lambda>b. b_pnr b = ''PNR0A1B2C3D'') (bookings example_cancelled_db)
      = Some b \<and> b_status b = CANCELLED \<and> b_refund_amount b = Some (207 / 2)"
    by blast
  have v: "rounds_to_cents (rd_round2 (ties_up 0))"
    by (simp add: ties_up_def round_cents_rounds)
  let ?up = "cancel_booking example_refund_db ''PNR0A1B2C3D'' ''User requested'' example_user
            (ties_up 0) ''2026-01-02 09:00:00'' (reading_at 0)"
  have u: "fst ?up = Inr \<lparr>rc_price_paid = 5005 / 100, rc_refund_amount = 4505 / 100,
              rc_policy = ''More than 72 hours before departure''\<rparr>"
    by code_simp
  have d: "fst (cancel_booking example_refund_db ''PNR0A1B2C3D'' ''User requested''
            example_user (ties_down 0) ''2026-01-02 09:00:00'' (reading_at 0))
       = Inr \<lparr>rc_price_paid = 5005 / 100, rc_refund_amount = 4504 / 100,
              rc_policy = ''More than 72 hours before departure''\<rparr>"
    by code_simp
  from u have u': "?up = (Inr \<lparr>rc_price_paid = 5005 / 100, rc_refund_amount = 4505 / 100,
              rc_policy = ''More than 72 hours before departure''\<rparr>, snd ?up)"
    by (metis prod.collapse)
  have z: "(ties_up 0)\<lparr>rd_now := 0\<rparr> = ties_up 0" by (simp add: ties_up_def)
  from cancellation_refund [OF u'] v obtain b' where
    "find (\<lambda>b. b_pnr b = ''PNR0A1B2C3D'') (bookings (snd ?up)) = Some b'"
    "b_status b' = CANCELLED" "b_refund_amount b' = Some (4505 / 100)"
    "calculate_refund 200 (hours 50) (ties_up 0) = (160, ''48-72 hours before departure'')"
    unfolding z by auto
  then have second: "(\<exists>b. find (\<lambda>b. b_pnr b = ''PNR0A1B2C3D'') (bookings (snd ?up)) = Some b
        \<and> b_status b = CANCELLED \<and> b_refund_amount b = Some (4505 / 100))
      \<and> calculate_refund 200 (hours 50) (ties_up 0) = (160, ''48-72 hours before departure'')"
    by blast
  have k: "is_cents (4505 / 100)
      \<and> \<bar>4505 / 100 - 5005 / 100 * spec_refund_pct 80\<bar> \<le> (1 / 200 :: rat)"
    by code_simp
  from c first v u d second k show ?thesis by blast
qed

text \<open>A cancellation that commits leaves the passenger table as it was.\<close>

lemma cancel_booking_keeps_passengers:
  assumes "cancel_booking stored pnr reason usr refund_reading ts history_reading = (Inr rc, conn')"
  shows "passengers conn' = passengers stored"
proof -
  from cancel_transaction_Inr [OF cancel_booking_Inr [OF assms]]
  obtain conn3 i c where "update_flight_inventory conn3 i c history_reading = Inr conn'"
    and "passengers conn3 = passengers stored"
    by fastforce
  then show ?thesis using update_flight_inventory_frame by metis
qed

text \<open>A seat that has a passenger row on the flight cannot be inserted again.\<close>

lemma insert_passengers_taken:
  assumes "p \<in> set ps"
    and "(flight_id, pi_seat_number p)
           \<in> set (map (\<lambda>q. (p_flight_id q, p_seat_number q)) (passengers conn))"
  shows "insert_passengers conn booking_id flight_id ps = Inl ConflictError"
  using assms
proof (induction ps arbitrary: conn)
  case Nil
  then show ?case by simp
next
  case (Cons a ps)
  show ?case
  proof (cases "(flight_id, pi_seat_number a)
           \<in> set (map (\<lambda>q. (p_flight_id q, p_seat_number q)) (passengers conn))")
    case True
    then show ?thesis by simp
  next
    case False
    with Cons.prems have "p \<in> set ps" by auto
    moreover have "(flight_id, pi_seat_number p)
           \<in> set (map (\<lambda>q. (p_flight_id q, p_seat_number q))
                (passengers (conn\<lparr>passengers := passengers conn @
                  [\<lparr>p_booking_id = booking_id, p_flight_id = flight_id,
                    p_seat_number = pi_seat_number a, p_seat_type = pi_seat_type a,
                    p_full_name = pi_full_name a,
                    p_passenger_type = pi_passenger_type a\<rparr>]\<rparr>)))"
      using Cons.prems(2) by simp
    ultimately show ?thesis using False Cons.IH by simp
  qed
qed

text \<open>
  Hence after any cancellation that commits, a checkout asking for a seat that had a
  passenger row on that flight before the cancellation is not confirmed.
\<close>

lemma seat_blocked_after_cancellation:
  assumes c: "cancel_booking stored pnr reason usr refund_reading ts history_reading = (Inr rc, conn')"
    and q: "q \<in> set (passengers stored)"
    and p: "p \<in> set (r_passengers req)"
    and same: "r_flight_id req = p_flight_id q" "pi_seat_number p = p_seat_number q"
  shows "isl (fst (checkout conn' req env))"
proof (rule ccontr)
  assume "\<not> isl (fst (checkout conn' req env))"
  then obtain r where "fst (checkout conn' req env) = Inr r"
    by (cases "fst (checkout conn' req env)") auto
  then have "checkout conn' req env = (Inr r, snd (checkout conn' req env))"
    by (metis prod.collapse)
  from checkout_transaction_Inr [OF checkout_Inr [OF this]]
  obtain booking_id conn1 conn2 total_price where
    ib: "insert_booking conn' req (e_pnr env) total_price (e_current_timestamp env)
           = Inr (booking_id, conn1)"
    and ip: "insert_passengers conn1 booking_id (r_flight_id req) (r_passengers req) = Inr conn2"
    by blast
  have "passengers conn1 = passengers stored"
    using ib cancel_booking_keeps_passengers [OF c]
    by (auto simp: insert_booking_def Let_def split: if_splits)
  then have "(r_flight_id req, pi_seat_number p)
      \<in> set (map (\<lambda>q. (p_flight_id q, p_seat_number q)) (passengers conn1))"
    using q same by force
  from insert_passengers_taken [OF p this] ip show False by simp
qed

text \<open>
  Claim C4 at a concrete state. User 7 holds the confirmed booking of seat 12A on flight 1
  and cancels it: the booking is CANCELLED and \<open>seats_remaining\<close> is back at 3, but the
  passenger row stays in the table. A later checkout for seat 12A on that flight, otherwise
  valid, fails with \<open>ConflictError\<close> and stores nothing; the cancelled booking's assignment
  blocks the seat.
\<close>

theorem cancelled_seat_not_reusable:
  "fst (cancel_booking example_booked_db ''PNR0A1B2C3D'' ''User requested'' example_user
          (reading_at 0) ''2026-01-02 09:00:00'' (reading_at 0))
     = Inr \<lparr>rc_price_paid = 115, rc_refund_amount = 207 / 2,
            rc_policy = ''More than 72 hours before departure''\<rparr>
   \<and> map b_status (bookings example_cancelled_db) = [CANCELLED]
   \<and> map f_seats_remaining (flights example_booked_db) = [2]
   \<and> map f_seats_remaining (flights example_cancelled_db) = [3]
   \<and> map p_seat_number (passengers example_cancelled_db) = [''12A'']
   \<and> map p_booking_id (passengers example_cancelled_db) = [1]
   \<and> checkout_validate example_cancelled_db example_request 0 = Inr example_flight
   \<and> checkout example_cancelled_db example_request example_env2
       = (Inl ConflictError, example_cancelled_db)"
  by code_simp

section \<open>Properties of the expiry job\<close>

lemma update_flight_inventory_flight_ids:
  assumes "update_flight_inventory conn flight_id c rd = Inr conn'"
  shows "map f_id (flights conn') = map f_id (flights conn)"
proof -
  have m: "\<And>g xs. (\<And>x. f_id (g x) = f_id x) \<Longrightarrow>
      map f_id (map (\<lambda>f. if f_id f = flight_id then g f else f) xs) = map f_id xs"
    by (simp add: comp_def if_distrib cong: if_cong)
  from assms show ?thesis
    by (auto simp: update_flight_inventory_def Let_def m
        split: option.splits if_splits sum.splits)
qed

lemma get_flight_None_iff:
  "get_flight conn i = None \<longleftrightarrow> i \<notin> set (map f_id (flights conn))"
  by (auto simp: get_flight_def find_None_iff)

lemma count_positive_iff:
  "0 < length (filter (\<lambda>p. p_booking_id p = i) ps) \<longleftrightarrow> (\<exists>p \<in> set ps. p_booking_id p = i)"
  by (simp add: filter_empty_conv)

text \<open>An unpaid booking with passengers whose flight has no row makes the loop raise.\<close>

lemma cleanup_loop_missing_flight:
  assumes "b \<in> set bs"
    and "\<exists>p \<in> set (passengers conn). p_booking_id p = b_id b"
    and "get_flight conn (b_flight_id b) = None"
  shows "\<exists>e. cleanup_loop conn bs rd = Inl e"
  using assms
proof (induction bs arbitrary: conn)
  case Nil
  then show ?case by simp
next
  case (Cons a bs)
  let ?count = "length (filter (\<lambda>p. p_booking_id p = b_id a) (passengers conn))"
  let ?step = "if 0 < ?count
               then update_flight_inventory conn (b_flight_id a) (int ?count) rd
               else Inr conn"
  show ?case
  proof (cases ?step)
    case (Inl e)
    then show ?thesis by (simp add: Let_def)
  next
    case (Inr conn1)
    have frame: "passengers conn1 = passengers conn
        \<and> map f_id (flights conn1) = map f_id (flights conn)"
      using Inr update_flight_inventory_frame update_flight_inventory_flight_ids
      by (auto split: if_splits)
    have "b \<noteq> a"
    proof
      assume "b = a"
      with Cons.prems(2) have "0 < ?count" unfolding count_positive_iff by simp
      moreover have "update_flight_inventory conn (b_flight_id a) (int ?count) rd
          = Inl NotFoundError"
        using Cons.prems(3) \<open>b = a\<close>
        by (simp add: update_flight_inventory_def get_flight_def)
      ultimately show False using Inr by simp
    qed
    with Cons.prems(1) have "b \<in> set bs" by simp
    let ?conn2 = "conn1\<lparr>bookings :=
        map (\<lambda>x. if b_id x = b_id a then x\<lparr>b_status := CANCELLED\<rparr> else x) (bookings conn1)\<rparr>"
    have "\<exists>p \<in> set (passengers ?conn2). p_booking_id p = b_id b"
      using Cons.prems(2) frame by simp
    moreover have "get_flight ?conn2 (b_flight_id b) = None"
      using Cons.prems(3) frame by (simp add: get_flight_None_iff)
    ultimately have "\<exists>e. cleanup_loop ?conn2 bs rd = Inl e"
      using Cons.IH [OF \<open>b \<in> set bs\<close>] by blast
    then show ?thesis using Inr by (simp add: Let_def)
  qed
qed

text \<open>A loop that runs to its end has cancelled exactly the bookings it was given.\<close>

lemma cleanup_loop_bookings:
  assumes "cleanup_loop conn bs rd = Inr conn'"
  shows "bookings conn' =
     map (\<lambda>x. if b_id x \<in> b_id ` set bs then x\<lparr>b_status := CANCELLED\<rparr> else x) (bookings conn)"
  using assms
proof (induction bs arbitrary: conn)
  case Nil
  then show ?case by simp
next
  case (Cons a bs)
  let ?count = "length (filter (\<lambda>p. p_booking_id p = b_id a) (passengers conn))"
  let ?step = "if 0 < ?count
               then update_flight_inventory conn (b_flight_id a) (int ?count) rd
               else Inr conn"
  from Cons.prems obtain conn1 where s: "?step = Inr conn1"
    and l: "cleanup_loop (conn1\<lparr>bookings :=
        map (\<lambda>x. if b_id x = b_id a then x\<lparr>b_status := CANCELLED\<rparr> else x) (bookings conn1)\<rparr>)
        bs rd = Inr conn'"
    by (auto simp: Let_def split: sum.splits)
  have b1: "bookings conn1 = bookings conn"
    using s update_flight_inventory_frame by (auto split: if_splits)
  from Cons.IH [OF l] b1 show ?case
    by (auto simp: comp_def)
qed

text \<open>
  Claim C8, amended: the expiry job is one unit of failure. A failure while releasing one
  unpaid booking ends the sweep: the exception is logged and the stored database is
  the one before the sweep, so no booking of that sweep is cancelled and no seat is
  released. This happens whenever an expired PENDING booking with passengers refers to a
  flight that has no row. When the sweep ends without an exception, every expired PENDING
  booking is CANCELLED.
\<close>

theorem cleanup_all_or_nothing:
  "(\<forall>conn' e. cleanup_expired_bookings stored cutoff rd = (conn', Some e) \<longrightarrow> conn' = stored)
   \<and> ((\<exists>b \<in> set (bookings stored). b_status b = PENDING \<and> b_booking_date b < cutoff
          \<and> (\<exists>p \<in> set (passengers stored). p_booking_id p = b_id b)
          \<and> get_flight stored (b_flight_id b) = None) \<longrightarrow>
        (\<exists>e. cleanup_expired_bookings stored cutoff rd = (stored, Some e)))
   \<and> (\<forall>conn'. cleanup_expired_bookings stored cutoff rd = (conn', None) \<longrightarrow>
        (\<forall>b \<in> set (bookings stored). b_status b = PENDING \<and> b_booking_date b < cutoff \<longrightarrow>
           (\<forall>b' \<in> set (bookings conn'). b_id b' = b_id b \<longrightarrow> b_status b' = CANCELLED)))"
proof (intro conjI allI impI)
  fix conn' e
  assume "cleanup_expired_bookings stored cutoff rd = (conn', Some e)"
  then show "conn' = stored"
    by (auto simp: cleanup_expired_bookings_def Let_def split: sum.splits)
next
  let ?expired = "filter (\<lambda>b. b_status b = PENDING \<and> b_booking_date b < cutoff)
      (bookings stored)"
  assume "\<exists>b \<in> set (bookings stored). b_status b = PENDING \<and> b_booking_date b < cutoff
          \<and> (\<exists>p \<in> set (passengers stored). p_booking_id p = b_id b)
          \<and> get_flight stored (b_flight_id b) = None"
  then obtain b where "b \<in> set ?expired"
    "\<exists>p \<in> set (passengers stored). p_booking_id p = b_id b"
    "get_flight stored (b_flight_id b) = None"
    by auto
  from cleanup_loop_missing_flight [OF this] obtain e where
    "cleanup_loop stored ?expired rd = Inl e" by blast
  then show "\<exists>e. cleanup_expired_bookings stored cutoff rd = (stored, Some e)"
    by (simp add: cleanup_expired_bookings_def)
next
  fix conn'
  let ?expired = "filter (\<lambda>b. b_status b = PENDING \<and> b_booking_date b < cutoff)
      (bookings stored)"
  assume "cleanup_expired_bookings stored cutoff rd = (conn', None)"
  then have "cleanup_loop stored ?expired rd = Inr conn'"
    by (auto simp: cleanup_expired_bookings_def Let_def split: sum.splits)
  from cleanup_loop_bookings [OF this]
  show "\<forall>b \<in> set (bookings stored). b_status b = PENDING \<and> b_booking_date b < cutoff \<longrightarrow>
           (\<forall>b' \<in> set (bookings conn'). b_id b' = b_id b \<longrightarrow> b_status b' = CANCELLED)"
    by auto
qed

text \<open>
  Claim C8 as stated lets the remaining bookings of a sweep be released when one release
  fails. In the example both bookings are PENDING and older than the cutoff; booking 1
  refers to flight 9, which has no row, booking 2 to flight 1. The sweep logs the 404 and
  leaves both bookings PENDING and the seats of flight 1 at 3, in either order of the two
  rows; a sweep over booking 2 alone cancels it and releases its seat.
\<close>

theorem cleanup_isolation_counterexample:
  "map b_status (bookings example_pending_db) = [PENDING, PENDING]
   \<and> map (\<lambda>b. b_booking_date b < ''2026-01-01T11:00:00.000000'') (bookings example_pending_db)
       = [True, True]
   \<and> map (\<lambda>b. get_flight example_pending_db (b_flight_id b)) (bookings example_pending_db)
       = [None, Some example_flight]
   \<and> cleanup_expired_bookings example_pending_db ''2026-01-01T11:00:00.000000'' (reading_at 0)
       = (example_pending_db, Some NotFoundError)
   \<and> cleanup_expired_bookings
        (example_pending_db\<lparr>bookings := rev (bookings example_pending_db)\<rparr>)
        ''2026-01-01T11:00:00.000000'' (reading_at 0)
       = (example_pending_db\<lparr>bookings := rev (bookings example_pending_db)\<rparr>,
          Some NotFoundError)
   \<and> map b_status (bookings (fst (cleanup_expired_bookings
        (example_pending_db\<lparr>bookings := tl (bookings example_pending_db)\<rparr>)
        ''2026-01-01T11:00:00.000000'' (reading_at 0)))) = [CANCELLED]
   \<and> map f_seats_remaining (flights (fst (cleanup_expired_bookings
        (example_pending_db\<lparr>bookings := tl (bookings example_pending_db)\<rparr>)
        ''2026-01-01T11:00:00.000000'' (reading_at 0)))) = [4]"
  by code_simp

text \<open>The same two sweeps, obtained from the theorem.\<close>

theorem cleanup_all_or_nothing_witness:
  "(\<exists>e. cleanup_expired_bookings example_pending_db ''2026-01-01T11:00:00.000000'' (reading_at 0)
          = (example_pending_db, Some e))
   \<and> snd (cleanup_expired_bookings
        (example_pending_db\<lparr>bookings := tl (bookings example_pending_db)\<rparr>)
        ''2026-01-01T11:00:00.000000'' (reading_at 0)) = None
   \<and> list_all (\<lambda>b'. b_id b' = 2 \<and> b_status b' = CANCELLED)
        (bookings (fst (cleanup_expired_bookings
           (example_pending_db\<lparr>bookings := tl (bookings example_pending_db)\<rparr>)
           ''2026-01-01T11:00:00.000000'' (reading_at 0))))"
proof -
  let ?cutoff = "''2026-01-01T11:00:00.000000''"
  let ?db2 = "example_pending_db\<lparr>bookings := tl (bookings example_pending_db)\<rparr>"
  note t1 = cleanup_all_or_nothing [of example_pending_db ?cutoff "reading_at 0"]
  note t2 = cleanup_all_or_nothing [of ?db2 ?cutoff "reading_at 0"]
  have h1: "\<exists>b \<in> set (bookings example_pending_db). b_status b = PENDING
          \<and> b_booking_date b < ?cutoff
          \<and> (\<exists>p \<in> set (passengers example_pending_db). p_booking_id p = b_id b)
          \<and> get_flight example_pending_db (b_flight_id b) = None"
    by (simp add: example_pending_db_def example_db_def example_flight_def get_flight_def)
  have a: "\<exists>e. cleanup_expired_bookings example_pending_db ?cutoff (reading_at 0)
          = (example_pending_db, Some e)"
    using t1 h1 by blast
  have n: "snd (cleanup_expired_bookings ?db2 ?cutoff (reading_at 0)) = None" by code_simp
  have ids: "list_all (\<lambda>b'. b_id b' = 2)
      (bookings (fst (cleanup_expired_bookings ?db2 ?cutoff (reading_at 0))))" by code_simp
  have h2: "\<exists>b \<in> set (bookings ?db2). b_id b = 2 \<and> b_status b = PENDING
      \<and> b_booking_date b < ?cutoff"
    by (simp add: example_pending_db_def)
  have "cleanup_expired_bookings ?db2 ?cutoff (reading_at 0)
      = (fst (cleanup_expired_bookings ?db2 ?cutoff (reading_at 0)), None)"
    using n by (metis prod.collapse)
  with t2 have "\<forall>b \<in> set (bookings ?db2). b_status b = PENDING \<and> b_booking_date b < ?cutoff \<longrightarrow>
      (\<forall>b' \<in> set (bookings (fst (cleanup_expired_bookings ?db2 ?cutoff (reading_at 0)))).
          b_id b' = b_id b \<longrightarrow> b_status b' = CANCELLED)"
    by blast
  with h2 have "\<forall>b' \<in> set (bookings (fst (cleanup_expired_bookings ?db2 ?cutoff (reading_at 0)))).
      b_id b' = 2 \<longrightarrow> b_status b' = CANCELLED"
    by metis
  with ids have "list_all (\<lambda>b'. b_id b' = 2 \<and> b_status b' = CANCELLED)
      (bookings (fst (cleanup_expired_bookings ?db2 ?cutoff (reading_at 0))))"
    by (simp add: list_all_iff)
  with a n show ?thesis by blast
qed

end
